theory Spec2Isabelle
  imports Main "HOL-Library.Mapping" "HOL-Library.AList_Mapping"
begin

section \<open>Conventions\<close>

text \<open>
  Go's \<open>int\<close>, \<open>int64\<close> and \<open>time.Duration\<close> are 64-bit. They are modelled as \<open>int\<close>,
  and where the source computes a value that can leave the range of \<open>int64\<close> the
  wrap-around is written out with \<open>int64\<close> below. A Go \<open>string\<close> is a sequence of bytes
  and \<open>len\<close> counts bytes: it is a \<open>string\<close> (a list of \<open>char\<close>) here.
\<close>

definition int64 :: "int \<Rightarrow> int" where
  "int64 x = (x + 2 ^ 63) mod 2 ^ 64 - 2 ^ 63"

text \<open>
  A call of a Go function returns or panics. Nothing in this repository recovers from
  a panic (there is no \<open>recover\<close> in it), so a panic goes up through every caller and
  ends the program.
\<close>

datatype 'a run = Returns 'a | Panics

subsection \<open>Decimal rendering of integers (the \<open>%d\<close> verb of \<open>fmt\<close>)\<close>

fun showNat :: "nat \<Rightarrow> string" where
  "showNat n = (if n < 10 then [char_of (48 + n)]
                else showNat (n div 10) @ [char_of (48 + n mod 10)])"

declare showNat.simps [simp del]

definition showInt :: "int \<Rightarrow> string" where
  "showInt i = (if i < 0 then CHR ''-'' # showNat (nat (- i)) else showNat (nat i))"

section \<open>internal/llm/errors.go: the error taxonomy\<close>

text \<open>
  The error values \<open>IsRetryableError\<close> can tell apart. The first four are the types
  the package declares; the others are what its type assertions and \<open>errors.As\<close> /
  \<open>errors.Is\<close> calls look for in a foreign error: a \<open>net.Error\<close> (with the answers of
  its \<open>Temporary()\<close> and \<open>Timeout()\<close> methods), a \<open>syscall.Errno\<close> by its number,
  \<open>context.DeadlineExceeded\<close> (which itself implements \<open>net.Error\<close>, answering true
  to both methods), any other plain error, and an error that wraps another one and
  exposes it through \<open>Unwrap\<close>.
\<close>

datatype llm_error =
    APIError int string string
  | NetworkError string llm_error
  | TimeoutError string int
  | EmptyResponseError string
  | NetError bool bool
  | Errno int
  | DeadlineExceeded
  | OtherError string
  | Wrapped string llm_error

fun StatusCode :: "llm_error \<Rightarrow> int" where
  "StatusCode (APIError status msg body) = status"
| "StatusCode _ = 0"

text \<open>\<open>(*APIError).Error\<close>.\<close>

definition APIError_Error :: "int \<Rightarrow> string \<Rightarrow> string" where
  "APIError_Error status msg =
     (if status > 0 then ''API error (status '' @ showInt status @ ''): '' @ msg
      else ''API error: '' @ msg)"

text \<open>\<open>(*APIError).IsRetryable\<close>: the \<open>switch\<close> on the status code.\<close>

definition APIError_IsRetryable :: "int \<Rightarrow> bool" where
  "APIError_IsRetryable status =
     (if status = 429 \<or> status = 500 \<or> status = 502 \<or> status = 503 \<or> status = 504
      then True else False)"

text \<open>
  The errno values \<open>isNetworkError\<close> lists (Linux numbers): \<open>ECONNREFUSED\<close> 111,
  \<open>ECONNRESET\<close> 104, \<open>ETIMEDOUT\<close> 110, \<open>EPIPE\<close> 32, \<open>ENETUNREACH\<close> 101,
  \<open>EHOSTUNREACH\<close> 113.
\<close>

definition retryableErrno :: "int \<Rightarrow> bool" where
  "retryableErrno n = (n = 111 \<or> n = 104 \<or> n = 110 \<or> n = 32 \<or> n = 101 \<or> n = 113)"

text \<open>\<open>errors.As(err, &errno)\<close>: the first \<open>syscall.Errno\<close> on the \<open>Unwrap\<close> chain.\<close>

fun asErrno :: "llm_error \<Rightarrow> int option" where
  "asErrno (Errno n) = Some n"
| "asErrno (Wrapped msg e) = asErrno e"
| "asErrno _ = None"

text \<open>\<open>errors.Is(err, context.DeadlineExceeded)\<close>.\<close>

fun isDeadlineExceeded :: "llm_error \<Rightarrow> bool" where
  "isDeadlineExceeded DeadlineExceeded = True"
| "isDeadlineExceeded (Wrapped msg e) = isDeadlineExceeded e"
| "isDeadlineExceeded _ = False"

text \<open>
  A \<open>syscall.Errno\<close> has the methods \<open>Temporary()\<close> and \<open>Timeout()\<close>, so it is a
  \<open>net.Error\<close> itself (Linux numbers: \<open>EINTR\<close> 4, \<open>EAGAIN\<close> and \<open>EWOULDBLOCK\<close> 11,
  \<open>ENFILE\<close> 23, \<open>EMFILE\<close> 24, \<open>ETIMEDOUT\<close> 110).
\<close>

definition Errno_Timeout :: "int \<Rightarrow> bool" where
  "Errno_Timeout n = (n = 11 \<or> n = 110)"

definition Errno_Temporary :: "int \<Rightarrow> bool" where
  "Errno_Temporary n = (n = 4 \<or> n = 24 \<or> n = 23 \<or> Errno_Timeout n)"

text \<open>
  The type assertion \<open>err.(net.Error)\<close>: (Temporary(), Timeout()) when it holds. It
  looks at the error itself, not through \<open>Unwrap\<close>.
\<close>

fun asNetError :: "llm_error \<Rightarrow> (bool \<times> bool) option" where
  "asNetError (NetError temporary timeout) = Some (temporary, timeout)"
| "asNetError (Errno n) = Some (Errno_Temporary n, Errno_Timeout n)"
| "asNetError DeadlineExceeded = Some (True, True)"
| "asNetError _ = None"

definition isNetworkError :: "llm_error \<Rightarrow> bool" where
  "isNetworkError err =
     (case asNetError err of
        Some (temporary, timeout) \<Rightarrow> temporary \<or> timeout
      | None \<Rightarrow>
          (case asErrno err of
             Some n \<Rightarrow> retryableErrno n
           | None \<Rightarrow> False))"

definition isTimeoutError :: "llm_error \<Rightarrow> bool" where
  "isTimeoutError err =
     (case asNetError err of
        Some (temporary, True) \<Rightarrow> True
      | _ \<Rightarrow> isDeadlineExceeded err)"

text \<open>
  \<open>IsRetryableError\<close>, for a non-nil error (the \<open>nil\<close> case, which returns false, is
  \<open>None\<close>). The type assertion \<open>err.(RetryableError)\<close> holds for the four types of the
  package and does not look through \<open>Unwrap\<close>.
\<close>

fun IsRetryable :: "llm_error \<Rightarrow> bool option" where
  "IsRetryable (APIError status msg body) = Some (APIError_IsRetryable status)"
| "IsRetryable (NetworkError op e) = Some True"
| "IsRetryable (TimeoutError op d) = Some True"
| "IsRetryable (EmptyResponseError msg) = Some True"
| "IsRetryable _ = None"

definition IsRetryableError :: "llm_error option \<Rightarrow> bool" where
  "IsRetryableError err =
     (case err of
        None \<Rightarrow> False
      | Some e \<Rightarrow>
          (case IsRetryable e of
             Some r \<Rightarrow> r
           | None \<Rightarrow> if isNetworkError e then True
                     else if isTimeoutError e then True
                     else False))"

section \<open>internal/approval/approval.go: the approval manager\<close>

text \<open>
  \<open>Level\<close> is a Go integer type with three named values; \<open>SetLevel\<close> accepts any
  integer, so it stays an \<open>int\<close>. The two Go maps are finite maps; reading an absent
  key gives \<open>false\<close>, Go's zero value. The mutex is not modelled: every method holds
  it for its whole body.
\<close>

type_synonym Level = int

definition LevelPerRequest :: Level where "LevelPerRequest = 0"
definition LevelSession :: Level where "LevelSession = 1"
definition LevelYOLO :: Level where "LevelYOLO = 2"

definition Level_String :: "Level \<Rightarrow> string" where
  "Level_String l =
     (if l = LevelPerRequest then ''per-request''
      else if l = LevelSession then ''session''
      else if l = LevelYOLO then ''yolo''
      else ''unknown'')"

record Manager =
  level :: Level
  sessionApproved :: "(string, bool) mapping"
  dangerousTools :: "(string, bool) mapping"

text \<open>Indexing a Go \<open>map[string]bool\<close>.\<close>

definition index_bool :: "(string, bool) mapping \<Rightarrow> string \<Rightarrow> bool" where
  "index_bool m k = (case Mapping.lookup m k of Some b \<Rightarrow> b | None \<Rightarrow> False)"

definition NewManager :: "bool \<Rightarrow> Manager" where
  "NewManager yolo =
     \<lparr> level = (if yolo then LevelYOLO else LevelPerRequest),
       sessionApproved = Mapping.empty,
       dangerousTools = Mapping.update ''file'' False (Mapping.update ''shell'' True Mapping.empty) \<rparr>"

definition GetLevel :: "Manager \<Rightarrow> Level" where
  "GetLevel m = level m"

definition SetLevel :: "Manager \<Rightarrow> Level \<Rightarrow> Manager" where
  "SetLevel m l = m\<lparr> level := l \<rparr>"

definition IsApproved :: "Manager \<Rightarrow> string \<Rightarrow> bool" where
  "IsApproved m toolName =
     (if level m = LevelYOLO then True
      else if level m = LevelSession then index_bool (sessionApproved m) toolName
      else False)"

text \<open>\<open>ApproveOnce\<close> has an empty body.\<close>

definition ApproveOnce :: "Manager \<Rightarrow> string \<Rightarrow> Manager" where
  "ApproveOnce m toolName = m"

definition ApproveForSession :: "Manager \<Rightarrow> string \<Rightarrow> Manager" where
  "ApproveForSession m toolName =
     m\<lparr> sessionApproved := Mapping.update toolName True (sessionApproved m) \<rparr>"

definition RevokeSessionApproval :: "Manager \<Rightarrow> string \<Rightarrow> Manager" where
  "RevokeSessionApproval m toolName =
     m\<lparr> sessionApproved := Mapping.delete toolName (sessionApproved m) \<rparr>"

definition IsSessionApproved :: "Manager \<Rightarrow> string \<Rightarrow> bool" where
  "IsSessionApproved m toolName = index_bool (sessionApproved m) toolName"

definition IsDangerous :: "Manager \<Rightarrow> string \<Rightarrow> bool" where
  "IsDangerous m toolName = index_bool (dangerousTools m) toolName"

definition SetDangerous :: "Manager \<Rightarrow> string \<Rightarrow> bool \<Rightarrow> Manager" where
  "SetDangerous m toolName dangerous =
     m\<lparr> dangerousTools := Mapping.update toolName dangerous (dangerousTools m) \<rparr>"

text \<open>
  \<open>GetSessionApprovedTools\<close> collects the keys of the map by ranging over it. Go
  leaves the order of that iteration unspecified, so the result is the set of names
  the returned slice holds.
\<close>

definition GetSessionApprovedTools :: "Manager \<Rightarrow> string set" where
  "GetSessionApprovedTools m = Mapping.keys (sessionApproved m)"

definition ClearSessionApprovals :: "Manager \<Rightarrow> Manager" where
  "ClearSessionApprovals m = m\<lparr> sessionApproved := Mapping.empty \<rparr>"

record ApprovalRequest =
  ToolCallID :: string
  ToolName :: string
  Arguments :: string
  IsDangerous_flag :: bool

definition NewApprovalRequest :: "Manager \<Rightarrow> string \<Rightarrow> string \<Rightarrow> string \<Rightarrow> ApprovalRequest" where
  "NewApprovalRequest m callID toolName args =
     \<lparr> ToolCallID = callID, ToolName = toolName, Arguments = args,
       IsDangerous_flag = IsDangerous m toolName \<rparr>"


section \<open>internal/tools/tool.go: tool results and their truncation\<close>

text \<open>
  An error value as the tools and the agent loop see it: an error made outside this
  repository (only its \<open>Error()\<close> text is ever read), or one made by \<open>fmt.Errorf\<close>,
  without or with a wrapped operand (\<open>%w\<close>). \<open>Errorf\<close> holds the formatted message;
  \<open>ErrorfW\<close> holds the text before the \<open>%w\<close> verb, which always stands last in this
  repository, and the wrapped error.
\<close>

datatype 'e error =
    Foreign 'e
  | Errorf string
  | ErrorfW string "'e error"

text \<open>
  What the standard library contributes and this repository does not define: the
  \<open>%q\<close> verb on a string (\<open>strconv.Quote\<close>), the \<open>Error()\<close> text of a foreign
  error, \<open>json.Marshal\<close> of a tool's result (its error is discarded by the caller),
  and the clock \<open>time.Now()\<close>, read off the world \<open>'w\<close> as Unix nanoseconds.
\<close>

record ('e, 'v, 'w) stdlib =
  Quote :: "string \<Rightarrow> string"
  ErrorText :: "'e \<Rightarrow> string"
  Marshal :: "'v \<Rightarrow> string"
  Now :: "'w \<Rightarrow> int"

fun Error_text :: "('e, 'v, 'w) stdlib \<Rightarrow> 'e error \<Rightarrow> string" where
  "Error_text lib (Foreign e) = ErrorText lib e"
| "Error_text lib (Errorf msg) = msg"
| "Error_text lib (ErrorfW prefix e) = prefix @ Error_text lib e"

record ToolCall =
  ID :: string
  Name :: string
  Arguments :: string

record ToolResult =
  CallID :: string
  Success :: bool
  Result :: string
  Error :: string

definition MaxToolOutputTotalChars :: int where "MaxToolOutputTotalChars = 50000"
definition MaxToolOutputLineChars :: int where "MaxToolOutputLineChars = 2000"

definition newline :: char where "newline = CHR 0x0A"

definition truncation_trailer :: string where
  "truncation_trailer = newline # ''... (output truncated)''"

text \<open>
  The local variables of \<open>truncateText\<close>'s loop. The loop runs \<open>i\<close> from 0 to
  \<open>len(text)\<close> inclusive; a line ends at a newline or at the end of the text.
  \<open>line[:maxLine]\<close> with a negative \<open>maxLine\<close> panics (slice bounds out of range):
  that is the result \<open>None\<close>. The other slice expressions are always in range.
\<close>

record trunc_state =
  result :: string
  totalLen :: int
  lineStart :: nat
  truncated :: bool

function truncateLoop :: "string \<Rightarrow> int \<Rightarrow> int \<Rightarrow> nat \<Rightarrow> trunc_state \<Rightarrow> trunc_state option" where
  "truncateLoop text maxTotal maxLine i st =
     (if i \<le> length text then
        (if i = length text \<or> text ! i = newline then
           (let line = take (i - lineStart st) (drop (lineStart st) text);
                lineEnd = (if i < length text then i + 1 else i);
                lineLen = (if int (length line) > maxLine then maxLine else int (length line));
                trunc1 = (if int (length line) > maxLine then True else truncated st)
            in if totalLen st + lineLen > maxTotal then
                 (let remaining = maxTotal - totalLen st
                  in if remaining > 0
                     then Some \<lparr> result = result st @ take (nat remaining) line,
                                 totalLen = totalLen st + remaining,
                                 lineStart = lineStart st, truncated = True \<rparr>
                     else Some \<lparr> result = result st, totalLen = totalLen st,
                                 lineStart = lineStart st, truncated = True \<rparr>)
               else if int (length line) > maxLine then
                 (if maxLine < 0 then None
                  else truncateLoop text maxTotal maxLine (i + 1)
                         \<lparr> result = result st @ take (nat maxLine) line
                                      @ (if i < length text then [newline] else []),
                           totalLen = totalLen st + lineLen,
                           lineStart = i + 1, truncated = trunc1 \<rparr>)
               else truncateLoop text maxTotal maxLine (i + 1)
                      \<lparr> result = result st
                                   @ take (lineEnd - lineStart st) (drop (lineStart st) text),
                        totalLen = totalLen st + lineLen + (if i < length text then 1 else 0),
                        lineStart = i + 1, truncated = trunc1 \<rparr>)
         else truncateLoop text maxTotal maxLine (i + 1) st)
      else Some st)"
  by pat_completeness auto
termination
  by (relation "measure (\<lambda>(text, maxTotal, maxLine, i, st). length text + 1 - i)") auto

declare truncateLoop.simps [simp del]

definition truncateText :: "string \<Rightarrow> int \<Rightarrow> int \<Rightarrow> string option" where
  "truncateText text maxTotal maxLine =
     (if int (length text) \<le> maxTotal \<and> maxLine \<le> 0 then Some text
      else (case truncateLoop text maxTotal maxLine 0
                   \<lparr> result = [], totalLen = 0, lineStart = 0, truncated = False \<rparr> of
              None \<Rightarrow> None
            | Some st \<Rightarrow>
                Some (if truncated st then result st @ truncation_trailer else result st)))"

text \<open>
  Every line of \<open>text\<close> has at most \<open>maxLine\<close> bytes: no stretch of the text without
  a newline is longer.
\<close>

definition lines_within :: "string \<Rightarrow> int \<Rightarrow> bool" where
  "lines_within text maxLine =
     (\<forall>a b. a \<le> b \<and> b \<le> length text \<and> (\<forall>k. a \<le> k \<and> k < b \<longrightarrow> text ! k \<noteq> newline)
            \<longrightarrow> int (b - a) \<le> maxLine)"

text \<open>
  \<open>TruncateForLLM\<close> on a non-nil result: a copy whose \<open>Result\<close> is truncated when
  non-empty and whose \<open>Error\<close> is truncated when longer than the total limit.
\<close>

definition TruncateForLLM :: "ToolResult \<Rightarrow> ToolResult option" where
  "TruncateForLLM tr =
     (case (if length (Result tr) > 0
            then truncateText (Result tr) MaxToolOutputTotalChars MaxToolOutputLineChars
            else Some (Result tr)) of
        None \<Rightarrow> None
      | Some r \<Rightarrow>
          (case (if int (length (Error tr)) > MaxToolOutputTotalChars
                 then truncateText (Error tr) MaxToolOutputTotalChars MaxToolOutputLineChars
                 else Some (Error tr)) of
             None \<Rightarrow> None
           | Some e \<Rightarrow> Some \<lparr> CallID = CallID tr, Success = Success tr, Result = r, Error = e \<rparr>))"

section \<open>internal/tools/shell.go: the shell tool\<close>

record ShellTool =
  workDir :: string
  timeout :: int

record ShellToolParams =
  Command :: string
  Timeout :: int

record ShellToolResult =
  Success :: bool
  Stdout :: string
  Stderr :: string
  ExitCode :: int
  Error :: string

definition time_Second :: int where "time_Second = 1000000000"

definition NewShellTool :: "string \<Rightarrow> int \<Rightarrow> ShellTool" where
  "NewShellTool dir t = \<lparr> workDir = dir, timeout = (if t = 0 then 60 * time_Second else t) \<rparr>"

text \<open>
  The error \<open>cmd.CombinedOutput()\<close> returns, as \<open>Execute\<close> inspects it: an
  \<open>*exec.ExitError\<close> with its \<open>ExitCode()\<close> and \<open>Stderr\<close>, or any other error with
  its \<open>Error()\<close> text.
\<close>

datatype exec_error = ExitError int string | OtherExecError string

text \<open>
  What \<open>Execute\<close> calls outside this repository: \<open>json.Unmarshal\<close> of the arguments
  into \<open>ShellToolParams\<close>, \<open>strings.TrimSpace\<close>, and the run of \<open>sh -c command\<close> in a
  directory under a deadline, which acts on the world \<open>'w\<close> and yields the combined
  output, the error, and whether \<open>execCtx.Err()\<close> is \<open>context.DeadlineExceeded\<close>
  once the run is over. The product \<open>time.Duration(params.Timeout) * time.Second\<close>
  wraps around in 64 bits.
\<close>

record ('e, 'w) shell_env =
  Unmarshal :: "string \<Rightarrow> 'e + ShellToolParams"
  TrimSpace :: "string \<Rightarrow> string"
  CombinedOutput :: "string \<Rightarrow> string \<Rightarrow> int \<Rightarrow> 'w \<Rightarrow> (string \<times> exec_error option \<times> bool) \<times> 'w"

definition ShellTool_Execute ::
  "ShellTool \<Rightarrow> ('e, 'w) shell_env \<Rightarrow> string \<Rightarrow> 'w \<Rightarrow> ('e error + ShellToolResult) \<times> 'w" where
  "ShellTool_Execute t env args w =
     (case Unmarshal env args of
        Inl e \<Rightarrow> (Inl (ErrorfW ''invalid parameters: '' (Foreign e)), w)
      | Inr params \<Rightarrow>
          if TrimSpace env (Command params) = [] then (Inl (Errorf ''command cannot be empty''), w)
          else
            (let tmo = (if Timeout params > 0 then int64 (Timeout params * time_Second)
                        else timeout t)
             in case CombinedOutput env (workDir t) (Command params) tmo w of
                  ((output, err, deadlineExceeded), w') \<Rightarrow>
                    (let res = \<lparr> Success = (err = None), Stdout = output, Stderr = [],
                                 ExitCode = 0, Error = [] \<rparr>
                     in (Inr (case err of
                                None \<Rightarrow> res
                              | Some (ExitError code stderr) \<Rightarrow>
                                  res\<lparr> ExitCode := code, Stderr := stderr \<rparr>
                              | Some (OtherExecError msg) \<Rightarrow>
                                  if deadlineExceeded
                                  then res\<lparr> Error := ''command timed out'', ExitCode := - 1 \<rparr>
                                  else res\<lparr> Error := msg \<rparr>), w'))))"

section \<open>internal/tools/file.go: the file tool\<close>

record FileTool =
  workDir :: string

text \<open>The anonymous struct \<open>Execute\<close> unmarshals its arguments into.\<close>

record FileToolParams =
  Operation :: string
  Path :: string
  Content :: string
  Offset :: int
  Limit :: int

record FileInfo =
  Name :: string
  Path :: string
  Size :: int
  IsDir :: bool
  ModTime :: int

record FileResult =
  Success :: bool
  Content :: string
  Error :: string
  Files :: "FileInfo list"

definition NewFileTool :: "string \<Rightarrow> FileTool" where
  "NewFileTool dir = \<lparr> FileTool.workDir = dir \<rparr>"

text \<open>
  An entry of \<open>os.ReadDir\<close>: its \<open>Name()\<close>, its \<open>IsDir()\<close>, and what its \<open>Info()\<close>
  gives, the \<open>Size()\<close> and the \<open>ModTime().Unix()\<close>, or \<open>None\<close> when \<open>Info()\<close> fails.
\<close>

record DirEntry =
  entry_Name :: string
  entry_IsDir :: bool
  entry_Info :: "(int \<times> int) option"

text \<open>
  What the file tool calls outside this repository: \<open>json.Unmarshal\<close> of the
  arguments, three functions of \<open>path/filepath\<close>, and the file system calls of \<open>os\<close>,
  which act on the world \<open>'w\<close>. An error of \<open>os\<close> is its \<open>Error()\<close> text, the only
  thing the tool reads of it; of \<open>os.Stat\<close> the tool reads only whether it failed.
\<close>

record ('e, 'w) file_env =
  file_Unmarshal :: "string \<Rightarrow> 'e + FileToolParams"
  filepath_IsAbs :: "string \<Rightarrow> bool"
  filepath_Join :: "string \<Rightarrow> string \<Rightarrow> string"
  filepath_Dir :: "string \<Rightarrow> string"
  os_ReadFile :: "string \<Rightarrow> 'w \<Rightarrow> (string + string) \<times> 'w"
  os_MkdirAll :: "string \<Rightarrow> 'w \<Rightarrow> string option \<times> 'w"
  os_WriteFile :: "string \<Rightarrow> string \<Rightarrow> 'w \<Rightarrow> string option \<times> 'w"
  os_ReadDir :: "string \<Rightarrow> 'w \<Rightarrow> (string + DirEntry list) \<times> 'w"
  os_RemoveAll :: "string \<Rightarrow> 'w \<Rightarrow> string option \<times> 'w"
  os_Stat :: "string \<Rightarrow> 'w \<Rightarrow> bool \<times> 'w"

definition resolvePath :: "FileTool \<Rightarrow> ('e, 'w) file_env \<Rightarrow> string \<Rightarrow> string" where
  "resolvePath t env path =
     (if filepath_IsAbs env path then path
      else if FileTool.workDir t \<noteq> [] then filepath_Join env (FileTool.workDir t) path
      else path)"

text \<open>\<open>strings.Split(s, "\n")\<close> and \<open>strings.Join(lines, "\n")\<close>.\<close>

fun strings_Split :: "string \<Rightarrow> string list" where
  "strings_Split [] = [[]]"
| "strings_Split (c # cs) =
     (if c = newline then [] # strings_Split cs
      else (case strings_Split cs of
              l # ls \<Rightarrow> (c # l) # ls
            | [] \<Rightarrow> [[c]]))"

fun strings_Join :: "string list \<Rightarrow> string" where
  "strings_Join [] = []"
| "strings_Join [l] = l"
| "strings_Join (l # ls) = l @ newline # strings_Join ls"

definition failure :: "string \<Rightarrow> FileResult" where
  "failure msg = \<lparr> FileResult.Success = False, FileResult.Content = [],
                   FileResult.Error = msg, Files = [] \<rparr>"

definition success :: FileResult where
  "success = \<lparr> FileResult.Success = True, FileResult.Content = [],
               FileResult.Error = [], Files = [] \<rparr>"

text \<open>
  \<open>readFile\<close>. The slice expression \<open>lines[offset:end]\<close> panics unless
  \<open>0 \<le> offset \<le> end \<le> cap(lines)\<close>; \<open>end\<close> is at most \<open>len(lines)\<close> here, so the
  first two bounds decide. The sum \<open>offset+limit\<close> wraps around in 64 bits.
\<close>

definition readFile ::
  "('e, 'w) file_env \<Rightarrow> string \<Rightarrow> int \<Rightarrow> int \<Rightarrow> 'w \<Rightarrow> FileResult run \<times> 'w" where
  "readFile env path offset limit w =
     (case os_ReadFile env path w of
        (Inl msg, w') \<Rightarrow> (Returns (failure msg), w')
      | (Inr content, w') \<Rightarrow>
          if offset > 0 \<or> limit > 0 then
            (let lines = strings_Split content;
                 offset1 = (if offset > int (length lines) then int (length lines) else offset);
                 end1 = (if limit > 0 \<and> int64 (offset1 + limit) < int (length lines)
                         then int64 (offset1 + limit) else int (length lines))
             in if 0 \<le> offset1 \<and> offset1 \<le> end1
                then (Returns (success\<lparr> FileResult.Content :=
                        strings_Join (take (nat (end1 - offset1)) (drop (nat offset1) lines)) \<rparr>), w')
                else (Panics, w'))
          else (Returns (success\<lparr> FileResult.Content := content \<rparr>), w'))"

definition writeFile ::
  "('e, 'w) file_env \<Rightarrow> string \<Rightarrow> string \<Rightarrow> 'w \<Rightarrow> FileResult \<times> 'w" where
  "writeFile env path content w =
     (case os_MkdirAll env (filepath_Dir env path) w of
        (Some msg, w') \<Rightarrow> (failure msg, w')
      | (None, w') \<Rightarrow>
          (case os_WriteFile env path content w' of
             (Some msg, w'') \<Rightarrow> (failure msg, w'')
           | (None, w'') \<Rightarrow> (success, w'')))"

fun listDir_entries :: "('e, 'w) file_env \<Rightarrow> string \<Rightarrow> DirEntry list \<Rightarrow> FileInfo list" where
  "listDir_entries env path [] = []"
| "listDir_entries env path (entry # entries) =
     (case entry_Info entry of
        None \<Rightarrow> listDir_entries env path entries
      | Some (sz, modTime) \<Rightarrow>
          \<lparr> FileInfo.Name = entry_Name entry,
            FileInfo.Path = filepath_Join env path (entry_Name entry),
            Size = sz, IsDir = entry_IsDir entry, ModTime = modTime \<rparr>
          # listDir_entries env path entries)"

definition listDir :: "('e, 'w) file_env \<Rightarrow> string \<Rightarrow> 'w \<Rightarrow> FileResult \<times> 'w" where
  "listDir env path w =
     (case os_ReadDir env path w of
        (Inl msg, w') \<Rightarrow> (failure msg, w')
      | (Inr entries, w') \<Rightarrow> (success\<lparr> Files := listDir_entries env path entries \<rparr>, w'))"

definition deleteFile :: "('e, 'w) file_env \<Rightarrow> string \<Rightarrow> 'w \<Rightarrow> FileResult \<times> 'w" where
  "deleteFile env path w =
     (case os_RemoveAll env path w of
        (Some msg, w') \<Rightarrow> (failure msg, w')
      | (None, w') \<Rightarrow> (success, w'))"

definition fileExists :: "('e, 'w) file_env \<Rightarrow> string \<Rightarrow> 'w \<Rightarrow> FileResult \<times> 'w" where
  "fileExists env path w =
     (case os_Stat env path w of
        (failed, w') \<Rightarrow> (success\<lparr> FileResult.Success := \<not> failed \<rparr>, w'))"

text \<open>\<open>(*FileTool).Execute\<close>: the \<open>switch\<close> on the operation.\<close>

definition FileTool_Execute ::
  "FileTool \<Rightarrow> ('e, 'w) file_env \<Rightarrow> string \<Rightarrow> 'w \<Rightarrow> ('e error + FileResult) run \<times> 'w" where
  "FileTool_Execute t env args w =
     (case file_Unmarshal env args of
        Inl e \<Rightarrow> (Returns (Inl (ErrorfW ''invalid parameters: '' (Foreign e))), w)
      | Inr params \<Rightarrow>
          (let path = resolvePath t env (FileToolParams.Path params)
           in if Operation params = ''read'' then
                (case readFile env path (Offset params) (Limit params) w of
                   (Panics, w') \<Rightarrow> (Panics, w')
                 | (Returns res, w') \<Rightarrow> (Returns (Inr res), w'))
              else if Operation params = ''write'' then
                (case writeFile env path (FileToolParams.Content params) w of
                   (res, w') \<Rightarrow> (Returns (Inr res), w'))
              else if Operation params = ''list'' then
                (case listDir env path w of (res, w') \<Rightarrow> (Returns (Inr res), w'))
              else if Operation params = ''delete'' then
                (case deleteFile env path w of (res, w') \<Rightarrow> (Returns (Inr res), w'))
              else if Operation params = ''exists'' then
                (case fileExists env path w of (res, w') \<Rightarrow> (Returns (Inr res), w'))
              else (Returns (Inl (Errorf (''unknown operation: '' @ Operation params))), w)))"

section \<open>internal/llm/retry.go: backoff and the retry executor\<close>

record 'f RetryConfig =
  MaxRetries :: int
  InitialWait :: int
  MaxWait :: int
  ExponentialBase :: 'f
  Jitter :: int

text \<open>
  \<open>ExponentialBackoff\<close> computes in \<open>float64\<close>. The type \<open>'f\<close> stands for
  \<open>float64\<close> and its operations are parameters: the conversion \<open>float64(x)\<close> of an
  integer, \<open>math.Pow\<close>, the product, the sum, and the conversion
  \<open>time.Duration(backoff)\<close> back to a 64-bit integer, whose result Go leaves to the
  implementation when the value is out of the range of \<open>int64\<close>. \<open>Int63n\<close> is
  \<open>rand.Int63n\<close> on a positive argument, drawing from the world \<open>'w\<close>; on an argument
  that is not positive \<open>rand.Int63n\<close> panics. The context and the timer are part of
  the world as well: \<open>ctx_Done\<close> tells whether \<open>ctx.Done()\<close> is closed, \<open>ctx_Err\<close> is
  \<open>ctx.Err()\<close>, and \<open>time_After d\<close> is the \<open>select\<close> between \<open>ctx.Done()\<close> and
  \<open>time.After(d)\<close>, answering true when the context won.
\<close>

record ('e, 'f, 'w) retry_env =
  float64 :: "int \<Rightarrow> 'f"
  math_Pow :: "'f \<Rightarrow> 'f \<Rightarrow> 'f"
  float_times :: "'f \<Rightarrow> 'f \<Rightarrow> 'f"
  float_plus :: "'f \<Rightarrow> 'f \<Rightarrow> 'f"
  Duration_of :: "'f \<Rightarrow> int"
  Int63n :: "int \<Rightarrow> 'w \<Rightarrow> int \<times> 'w"
  ctx_Done :: "'w \<Rightarrow> bool"
  ctx_Err :: "'w \<Rightarrow> 'e error"
  time_After :: "int \<Rightarrow> 'w \<Rightarrow> bool \<times> 'w"

text \<open>
  \<open>ExponentialBackoff\<close>. In \<open>rand.Int63n(int64(2*jitter))\<close> the product wraps around
  in 64 bits, and the call panics when its argument is not positive.
\<close>

definition ExponentialBackoff ::
  "('e, 'f, 'w) retry_env \<Rightarrow> int \<Rightarrow> int \<Rightarrow> int \<Rightarrow> 'f \<Rightarrow> int \<Rightarrow> 'w \<Rightarrow> int run \<times> 'w" where
  "ExponentialBackoff env attempt initialWait maxWait base jitter w =
     (let backoff = float_times env (float64 env initialWait)
                      (math_Pow env base (float64 env attempt))
      in case (if jitter > 0 then
                 (if int64 (2 * jitter) \<le> 0 then (Panics, w)
                  else (case Int63n env (int64 (2 * jitter)) w of
                          (r, w') \<Rightarrow>
                            (Returns (float_plus env backoff (float64 env (r - jitter))), w')))
               else (Returns backoff, w)) of
           (Panics, w') \<Rightarrow> (Panics, w')
         | (Returns backoff1, w') \<Rightarrow>
             (let wait = Duration_of env backoff1;
                  wait1 = (if wait > maxWait then maxWait else wait);
                  wait2 = (if wait1 < 0 then 0 else wait1)
              in (Returns wait2, w')))"

text \<open>
  The error after the loop:
  \<open>fmt.Errorf("max retries (%d) exceeded: %w", config.MaxRetries, lastErr)\<close>. With a nil
  operand \<open>fmt\<close> prints \<open>%!w(<nil>)\<close> and wraps nothing.
\<close>

definition maxRetriesError :: "int \<Rightarrow> 'e error option \<Rightarrow> 'e error" where
  "maxRetriesError n lastErr =
     (case lastErr of
        Some e \<Rightarrow> ErrorfW (''max retries ('' @ showInt n @ '') exceeded: '') e
      | None \<Rightarrow> Errorf (''max retries ('' @ showInt n @ '') exceeded: %!w(<nil>)''))"

text \<open>
  The \<open>for\<close> loop of \<open>ExecuteWithRetry\<close>, from the value \<open>attempt\<close> of its counter on:
  the error it returns (or the panic of \<open>ExponentialBackoff\<close>) and the world afterwards.
  The operation \<open>fn\<close> and the callback \<open>onRetry\<close> act on the world; either of the
  predicate and the callback may be nil.
\<close>

function retryLoop ::
  "('e, 'f, 'w) retry_env \<Rightarrow> 'f RetryConfig \<Rightarrow> ('w \<Rightarrow> 'e error option \<times> 'w)
   \<Rightarrow> ('e error \<Rightarrow> bool) option \<Rightarrow> (int \<Rightarrow> 'e error \<Rightarrow> int \<Rightarrow> 'w \<Rightarrow> 'w) option
   \<Rightarrow> int \<Rightarrow> 'e error option \<Rightarrow> 'w \<Rightarrow> 'e error option run \<times> 'w" where
  "retryLoop env config fn isRetryable onRetry attempt lastErr w =
     (if attempt \<le> MaxRetries config then
        (if ctx_Done env w then (Returns (Some (ctx_Err env w)), w)
         else
           (case fn w of
              (None, w1) \<Rightarrow> (Returns None, w1)
            | (Some err, w1) \<Rightarrow>
                if (case isRetryable of Some p \<Rightarrow> \<not> p err | None \<Rightarrow> False)
                then (Returns (Some err), w1)
                else if attempt \<ge> MaxRetries config
                then (Returns (Some (maxRetriesError (MaxRetries config) (Some err))), w1)
                else
                  (case ExponentialBackoff env attempt (InitialWait config) (MaxWait config)
                          (ExponentialBase config) (Jitter config) w1 of
                     (Panics, w2) \<Rightarrow> (Panics, w2)
                   | (Returns waitTime, w2) \<Rightarrow>
                       (case time_After env waitTime
                               (case onRetry of
                                  Some cb \<Rightarrow> cb (attempt + 1) err waitTime w2
                                | None \<Rightarrow> w2) of
                          (True, w4) \<Rightarrow> (Returns (Some (ctx_Err env w4)), w4)
                        | (False, w4) \<Rightarrow>
                            retryLoop env config fn isRetryable onRetry (attempt + 1)
                              (Some err) w4))))
      else (Returns (Some (maxRetriesError (MaxRetries config) lastErr)), w))"
  by pat_completeness auto
termination
  by (relation "measure (\<lambda>(env, config, fn, isRetryable, onRetry, attempt, lastErr, w).
        nat (MaxRetries config + 1 - attempt))") auto

declare retryLoop.simps [simp del]

definition DefaultRetryConfig :: "'f \<Rightarrow> 'f RetryConfig" where
  "DefaultRetryConfig two =
     \<lparr> MaxRetries = 3, InitialWait = 300 * 1000000, MaxWait = 5 * time_Second,
       ExponentialBase = two, Jitter = 500 * 1000000 \<rparr>"

text \<open>
  \<open>ExecuteWithRetry\<close>. A nil \<open>config\<close> is \<open>None\<close> and stands for the default
  configuration, whose base is the \<open>float64\<close> 2.0 (\<open>two\<close>).
\<close>

definition ExecuteWithRetry ::
  "('e, 'f, 'w) retry_env \<Rightarrow> 'f \<Rightarrow> 'f RetryConfig option \<Rightarrow> ('w \<Rightarrow> 'e error option \<times> 'w)
   \<Rightarrow> ('e error \<Rightarrow> bool) option \<Rightarrow> (int \<Rightarrow> 'e error \<Rightarrow> int \<Rightarrow> 'w \<Rightarrow> 'w) option
   \<Rightarrow> 'w \<Rightarrow> 'e error option run \<times> 'w" where
  "ExecuteWithRetry env two config fn isRetryable onRetry w =
     retryLoop env (case config of None \<Rightarrow> DefaultRetryConfig two | Some c \<Rightarrow> c)
       fn isRetryable onRetry 0 None w"

section \<open>internal/llm/client.go and internal/wire/types.go: the messages\<close>

record FunctionCall =
  Name :: string
  Arguments :: string

record ToolCallInfo =
  ID :: string
  Type :: string
  Function :: FunctionCall

record Message =
  Role :: string
  Content :: string
  ToolCalls :: "ToolCallInfo list"
  ToolCallID :: string

record FunctionDef =
  Name :: string
  Description :: string
  Parameters :: string

record ToolDef =
  Type :: string
  Function :: FunctionDef

record Choice =
  Index :: int
  Message :: Message
  Delta :: Message
  FinishReason :: string

record Usage =
  PromptTokens :: int
  CompletionTokens :: int
  TotalTokens :: int

text \<open>Of a \<open>ChatResponse\<close>, the choices and the usage; its four other fields are never read.\<close>

record ChatResponse =
  Choices :: "Choice list"
  Usage :: Usage

text \<open>
  The wire protocol. \<open>MessageType\<close> is a Go string type with twelve named values. A
  \<open>time.Time\<close> is its Unix time in nanoseconds; the values of the metadata map, of
  any type, are their JSON texts, and a nil map is the empty list.
\<close>

type_synonym MessageType = string

definition MessageTypeUserInput :: MessageType where "MessageTypeUserInput = ''user_input''"
definition MessageTypeCancel :: MessageType where "MessageTypeCancel = ''cancel''"
definition MessageTypeAssistant :: MessageType where "MessageTypeAssistant = ''assistant''"
definition MessageTypeToolCall :: MessageType where "MessageTypeToolCall = ''tool_call''"
definition MessageTypeToolResult :: MessageType where "MessageTypeToolResult = ''tool_result''"
definition MessageTypeError :: MessageType where "MessageTypeError = ''error''"
definition MessageTypeSystem :: MessageType where "MessageTypeSystem = ''system''"
definition MessageTypeCheckpoint :: MessageType where "MessageTypeCheckpoint = ''checkpoint''"
definition MessageTypeClear :: MessageType where "MessageTypeClear = ''clear''"
definition MessageTypeStatus :: MessageType where "MessageTypeStatus = ''status''"
definition MessageTypeProgress :: MessageType where "MessageTypeProgress = ''progress''"
definition MessageTypeDone :: MessageType where "MessageTypeDone = ''done''"

record ContentPart =
  Type :: string
  Text :: string
  JSON :: string
  MimeType :: string
  Data :: string

record wire_Message =
  Type :: MessageType
  ID :: string
  ParentID :: string
  Content :: "ContentPart list"
  Metadata :: "(string \<times> string) list"
  Timestamp :: int

text \<open>
  The message literal the agent loop writes in four places: a type, one text part and
  the time of \<open>time.Now()\<close>; every other field keeps its zero value.
\<close>

definition text_message :: "MessageType \<Rightarrow> string \<Rightarrow> int \<Rightarrow> wire_Message" where
  "text_message t s now =
     \<lparr> wire_Message.Type = t, wire_Message.ID = [], ParentID = [],
       wire_Message.Content = [\<lparr> ContentPart.Type = ''text'', Text = s, JSON = [],
                                  MimeType = [], Data = [] \<rparr>],
       Metadata = [], Timestamp = now \<rparr>"

section \<open>internal/tools/tool.go: the tool set\<close>

text \<open>
  A tool is a value of the \<open>Tool\<close> interface: its four methods. \<open>Execute\<close> acts on
  the world (the context it is given is part of it) and returns a value of any type
  \<open>'v\<close> or an error, or it panics.
\<close>

record ('e, 'v, 'w) Tool =
  Name :: string
  Description :: string
  Parameters :: string
  Execute :: "string \<Rightarrow> 'w \<Rightarrow> ('e error + 'v) run \<times> 'w"

text \<open>
  The tool set is a Go map from names to tools. It is an association list here, in the
  order of registration; \<open>Register\<close> refuses a name that is present, so a name occurs
  once. \<open>List\<close> ranges over the map, in an order Go leaves unspecified: the order of
  the list stands for it.
\<close>

type_synonym ('e, 'v, 'w) ToolSet = "(string \<times> ('e, 'v, 'w) Tool) list"

definition NewToolSet :: "('e, 'v, 'w) ToolSet" where
  "NewToolSet = []"

definition ToolSet_Register ::
  "('e, 'v, 'w) stdlib \<Rightarrow> ('e, 'v, 'w) ToolSet \<Rightarrow> ('e, 'v, 'w) Tool
   \<Rightarrow> 'e error + ('e, 'v, 'w) ToolSet" where
  "ToolSet_Register lib ts tool =
     (case map_of ts (Tool.Name tool) of
        Some t \<Rightarrow> Inl (Errorf (''tool '' @ Quote lib (Tool.Name tool) @ '' already registered''))
      | None \<Rightarrow> Inr (ts @ [(Tool.Name tool, tool)]))"

definition ToolSet_Get ::
  "('e, 'v, 'w) stdlib \<Rightarrow> ('e, 'v, 'w) ToolSet \<Rightarrow> string \<Rightarrow> 'e error + ('e, 'v, 'w) Tool" where
  "ToolSet_Get lib ts name =
     (case map_of ts name of
        None \<Rightarrow> Inl (Errorf (''tool '' @ Quote lib name @ '' not found''))
      | Some tool \<Rightarrow> Inr tool)"

definition ToolSet_List :: "('e, 'v, 'w) ToolSet \<Rightarrow> ('e, 'v, 'w) Tool list" where
  "ToolSet_List ts = map snd ts"

record ToolInfo =
  Name :: string
  Description :: string
  Parameters :: string

definition GetToolInfo :: "('e, 'v, 'w) ToolSet \<Rightarrow> ToolInfo list" where
  "GetToolInfo ts =
     map (\<lambda>tool. \<lparr> ToolInfo.Name = Tool.Name tool,
                    ToolInfo.Description = Tool.Description tool,
                    ToolInfo.Parameters = Tool.Parameters tool \<rparr>) (ToolSet_List ts)"

text \<open>
  The shell tool as a value of the \<open>Tool\<close> interface. The JSON schema its
  \<open>Parameters\<close> method returns is a constant text of the source (\<open>schema\<close>), and
  \<open>toAny\<close> is the conversion of its result to Go's \<open>any\<close>.
\<close>

definition ShellTool_Tool ::
  "string \<Rightarrow> (ShellToolResult \<Rightarrow> 'v) \<Rightarrow> ShellTool \<Rightarrow> ('e, 'w) shell_env \<Rightarrow> ('e, 'v, 'w) Tool" where
  "ShellTool_Tool schema toAny t env =
     \<lparr> Tool.Name = ''shell'',
       Tool.Description = ''Execute shell commands. Use this tool to run commands in the shell.'',
       Tool.Parameters = schema,
       Execute = (\<lambda>args w. case ShellTool_Execute t env args w of
                               (Inl err, w') \<Rightarrow> (Returns (Inl err), w')
                             | (Inr res, w') \<Rightarrow> (Returns (Inr (toAny res)), w')) \<rparr>"

text \<open>The file tool as a value of the \<open>Tool\<close> interface, in the same way.\<close>

definition FileTool_Tool ::
  "string \<Rightarrow> (FileResult \<Rightarrow> 'v) \<Rightarrow> FileTool \<Rightarrow> ('e, 'w) file_env \<Rightarrow> ('e, 'v, 'w) Tool" where
  "FileTool_Tool schema toAny t env =
     \<lparr> Tool.Name = ''file'',
       Tool.Description = ''File operations including read, write, list, and search.'',
       Tool.Parameters = schema,
       Execute = (\<lambda>args w. case FileTool_Execute t env args w of
                               (Panics, w') \<Rightarrow> (Panics, w')
                             | (Returns (Inl err), w') \<Rightarrow> (Returns (Inl err), w')
                             | (Returns (Inr res), w') \<Rightarrow> (Returns (Inr (toAny res)), w')) \<rparr>"

section \<open>internal/soul/soul.go: the agent loop\<close>

record ('e, 'w) LLMClient =
  ChatWithTools :: "Message list \<Rightarrow> ToolDef list \<Rightarrow> 'w \<Rightarrow> ('e error + ChatResponse) \<times> 'w"

record ('e, 'v, 'w) Runtime =
  WorkDir :: string
  Tools :: "('e, 'v, 'w) ToolSet"
  LLMClient :: "('e, 'w) LLMClient option"
  YOLO :: bool
  MaxSteps :: int
  MaxRetries :: int

definition NewRuntime :: "string \<Rightarrow> bool \<Rightarrow> ('e, 'v, 'w) Runtime" where
  "NewRuntime dir yolo =
     \<lparr> WorkDir = dir, Tools = NewToolSet, LLMClient = None, YOLO = yolo,
       MaxSteps = 100, Runtime.MaxRetries = 3 \<rparr>"

record Agent =
  Name :: string
  SystemPrompt :: string
  Tools :: "string list"

text \<open>
  The fields of \<open>Soul\<close> the agent loop reads: the agent, the runtime, and the four
  handlers, each of which may be nil (\<open>None\<close>) and acts on the world when called.
  These are all the handlers the struct declares. The transcript (\<open>Context\<close>) and
  \<open>llmHistory\<close>, which the loop assigns, are in \<open>turn\<close> below; the mutex, the
  channels and the running flag belong to \<open>Run\<close>. The client and the handlers are
  taken to return; a tool may panic.
\<close>

record ('e, 'v, 'w) Soul =
  Agent :: Agent
  runtime :: "('e, 'v, 'w) Runtime"
  OnMessage :: "(wire_Message \<Rightarrow> 'w \<Rightarrow> 'w) option"
  OnToolCall :: "(ToolCall \<Rightarrow> 'w \<Rightarrow> 'w) option"
  OnToolResult :: "(ToolResult \<Rightarrow> 'w \<Rightarrow> 'w) option"
  OnError :: "('e error \<Rightarrow> 'w \<Rightarrow> 'w) option"

text \<open>
  The state one call of \<open>processWithLLM\<close> changes: \<open>s.llmHistory\<close>, the messages
  of \<open>s.Context\<close>, the local variable \<open>messages\<close>, and the world, on which the
  client, the tools and the handlers act.
\<close>

record 'w turn =
  llmHistory :: "Message list"
  Context :: "wire_Message list"
  messages :: "Message list"
  world :: 'w

definition AddMessage :: "wire_Message \<Rightarrow> 'w turn \<Rightarrow> 'w turn" where
  "AddMessage msg t = t\<lparr> Context := Context t @ [msg] \<rparr>"

definition callOnMessage :: "('e, 'v, 'w) Soul \<Rightarrow> wire_Message \<Rightarrow> 'w turn \<Rightarrow> 'w turn" where
  "callOnMessage s msg t =
     (case OnMessage s of
        None \<Rightarrow> t
      | Some h \<Rightarrow> t\<lparr> world := h msg (world t) \<rparr>)"

definition callOnToolCall :: "('e, 'v, 'w) Soul \<Rightarrow> ToolCall \<Rightarrow> 'w turn \<Rightarrow> 'w turn" where
  "callOnToolCall s c t =
     (case OnToolCall s of
        None \<Rightarrow> t
      | Some h \<Rightarrow> t\<lparr> world := h c (world t) \<rparr>)"

definition callOnToolResult :: "('e, 'v, 'w) Soul \<Rightarrow> ToolResult \<Rightarrow> 'w turn \<Rightarrow> 'w turn" where
  "callOnToolResult s r t =
     (case OnToolResult s of
        None \<Rightarrow> t
      | Some h \<Rightarrow> t\<lparr> world := h r (world t) \<rparr>)"

fun extractText_parts :: "ContentPart list \<Rightarrow> string" where
  "extractText_parts [] = []"
| "extractText_parts (part # parts) =
     (if ContentPart.Type part = ''text'' then Text part else extractText_parts parts)"

definition extractText :: "wire_Message \<Rightarrow> string" where
  "extractText msg = extractText_parts (wire_Message.Content msg)"

definition buildLLMMessages :: "('e, 'v, 'w) Soul \<Rightarrow> Message list \<Rightarrow> Message list" where
  "buildLLMMessages s history =
     (if SystemPrompt (Agent s) \<noteq> []
      then [\<lparr> Role = ''system'', Message.Content = SystemPrompt (Agent s),
              ToolCalls = [], ToolCallID = [] \<rparr>]
      else []) @ history"

definition buildToolDefs :: "('e, 'v, 'w) Soul \<Rightarrow> ToolDef list" where
  "buildToolDefs s =
     map (\<lambda>info. \<lparr> ToolDef.Type = ''function'',
                    ToolDef.Function = \<lparr> FunctionDef.Name = ToolInfo.Name info,
                                         FunctionDef.Description = ToolInfo.Description info,
                                         FunctionDef.Parameters = ToolInfo.Parameters info \<rparr> \<rparr>)
         (GetToolInfo (Runtime.Tools (runtime s)))"

text \<open>
  \<open>executeToolCall\<close>: the result and the Go error it returns beside it, or the panic
  of the tool, and the world afterwards.
\<close>

definition executeToolCall ::
  "('e, 'v, 'w) stdlib \<Rightarrow> ('e, 'v, 'w) Soul \<Rightarrow> ToolCall \<Rightarrow> 'w
   \<Rightarrow> (ToolResult \<times> 'e error option) run \<times> 'w" where
  "executeToolCall lib s call w =
     (case ToolSet_Get lib (Runtime.Tools (runtime s)) (ToolCall.Name call) of
        Inl err \<Rightarrow>
          (Returns (\<lparr> CallID = ToolCall.ID call, ToolResult.Success = False, Result = [],
                       ToolResult.Error = Error_text lib err \<rparr>, None), w)
      | Inr tool \<Rightarrow>
          (case Execute tool (ToolCall.Arguments call) w of
             (Panics, w') \<Rightarrow> (Panics, w')
           | (Returns (Inl err), w') \<Rightarrow>
               (Returns (\<lparr> CallID = ToolCall.ID call, ToolResult.Success = False, Result = [],
                            ToolResult.Error = Error_text lib err \<rparr>, None), w')
           | (Returns (Inr v), w') \<Rightarrow>
               (Returns (\<lparr> CallID = ToolCall.ID call, ToolResult.Success = True,
                            Result = Marshal lib v, ToolResult.Error = [] \<rparr>, None), w')))"

text \<open>The body of the loop over \<open>assistantMsg.ToolCalls\<close>, for one tool call.\<close>

definition toolCallStep ::
  "('e, 'v, 'w) stdlib \<Rightarrow> ('e, 'v, 'w) Soul \<Rightarrow> ToolCallInfo \<Rightarrow> 'w turn
   \<Rightarrow> 'e error option run \<times> 'w turn" where
  "toolCallStep lib s tc t =
     (let toolCall = \<lparr> ToolCall.ID = ToolCallInfo.ID tc,
                       ToolCall.Name = FunctionCall.Name (ToolCallInfo.Function tc),
                       ToolCall.Arguments = FunctionCall.Arguments (ToolCallInfo.Function tc) \<rparr>;
          t1 = callOnToolCall s toolCall t;
          tcMsg = text_message MessageTypeToolCall
                    (''Calling tool: '' @ FunctionCall.Name (ToolCallInfo.Function tc) @ ''(''
                     @ FunctionCall.Arguments (ToolCallInfo.Function tc) @ '')'')
                    (Now lib (world t1));
          t2 = callOnMessage s tcMsg (AddMessage tcMsg t1)
      in case executeToolCall lib s toolCall (world t2) of
           (Panics, w') \<Rightarrow> (Panics, t2\<lparr> world := w' \<rparr>)
         | (Returns (res, execErr), w') \<Rightarrow>
             (let t3 = t2\<lparr> world := w' \<rparr>
              in case execErr of
                   Some e \<Rightarrow> (Returns (Some (ErrorfW ''tool execution error: '' e)), t3)
                 | None \<Rightarrow>
                     (let t4 = callOnToolResult s res t3;
                          resultText = (if ToolResult.Success res then Result res
                                        else ''Error: '' @ ToolResult.Error res);
                          toolResultMsg = \<lparr> Role = ''tool'', Message.Content = resultText,
                                            ToolCalls = [], ToolCallID = ToolCallInfo.ID tc \<rparr>;
                          t5 = t4\<lparr> llmHistory := llmHistory t4 @ [toolResultMsg],
                                   messages := messages t4 @ [toolResultMsg] \<rparr>;
                          trMsg = text_message MessageTypeToolResult resultText
                                    (Now lib (world t5))
                      in (Returns None, callOnMessage s trMsg (AddMessage trMsg t5)))))"

fun toolCallsLoop ::
  "('e, 'v, 'w) stdlib \<Rightarrow> ('e, 'v, 'w) Soul \<Rightarrow> ToolCallInfo list \<Rightarrow> 'w turn
   \<Rightarrow> 'e error option run \<times> 'w turn" where
  "toolCallsLoop lib s [] t = (Returns None, t)"
| "toolCallsLoop lib s (tc # tcs) t =
     (case toolCallStep lib s tc t of
        (Panics, t') \<Rightarrow> (Panics, t')
      | (Returns (Some e), t') \<Rightarrow> (Returns (Some e), t')
      | (Returns None, t') \<Rightarrow> toolCallsLoop lib s tcs t')"

text \<open>The final text response of a turn, after an assistant message without tool calls.\<close>

definition finalResponse ::
  "('e, 'v, 'w) stdlib \<Rightarrow> ('e, 'v, 'w) Soul \<Rightarrow> Message \<Rightarrow> 'w turn \<Rightarrow> 'w turn" where
  "finalResponse lib s assistantMsg t =
     (let responseText = (if Message.Content assistantMsg = [] then ''(empty response)''
                          else Message.Content assistantMsg);
          response = text_message MessageTypeAssistant responseText (Now lib (world t))
      in callOnMessage s response (AddMessage response t))"

text \<open>
  The agent loop of \<open>processWithLLM\<close>, from the value \<open>step\<close> of its counter on.
  \<open>Context.Save()\<close> after the final response writes a file and its result is
  discarded: it is not modelled.
\<close>

function agentLoop ::
  "('e, 'v, 'w) stdlib \<Rightarrow> ('e, 'v, 'w) Soul \<Rightarrow> ('e, 'w) LLMClient \<Rightarrow> ToolDef list \<Rightarrow> int
   \<Rightarrow> 'w turn \<Rightarrow> 'e error option run \<times> 'w turn" where
  "agentLoop lib s client toolDefs step t =
     (if step < MaxSteps (runtime s) then
        (case ChatWithTools client (messages t) toolDefs (world t) of
           (Inl err, w') \<Rightarrow>
             (Returns (Some (ErrorfW ''LLM request failed: '' err)), t\<lparr> world := w' \<rparr>)
         | (Inr resp, w') \<Rightarrow>
             (let t1 = t\<lparr> world := w' \<rparr>
              in case Choices resp of
                   [] \<Rightarrow> (Returns (Some (Errorf ''LLM returned no choices'')), t1)
                 | choice # others \<Rightarrow>
                     (let assistantMsg = Choice.Message choice;
                          t2 = t1\<lparr> llmHistory := llmHistory t1 @ [assistantMsg],
                                   messages := messages t1 @ [assistantMsg] \<rparr>
                      in if length (ToolCalls assistantMsg) > 0
                         then (case toolCallsLoop lib s (ToolCalls assistantMsg) t2 of
                                 (Panics, t3) \<Rightarrow> (Panics, t3)
                               | (Returns (Some e), t3) \<Rightarrow> (Returns (Some e), t3)
                               | (Returns None, t3) \<Rightarrow>
                                   agentLoop lib s client toolDefs (step + 1) t3)
                         else (Returns None, finalResponse lib s assistantMsg t2))))
      else (Returns (Some (Errorf (''agent loop exceeded maximum steps (''
                                   @ showInt (MaxSteps (runtime s)) @ '')''))), t))"
  by pat_completeness auto
termination
  by (relation "measure (\<lambda>(lib, s, client, toolDefs, step, t). nat (MaxSteps (runtime s) - step))")
     auto

declare agentLoop.simps [simp del]

definition processWithLLM ::
  "('e, 'v, 'w) stdlib \<Rightarrow> ('e, 'v, 'w) Soul \<Rightarrow> wire_Message \<Rightarrow> 'w turn
   \<Rightarrow> 'e error option run \<times> 'w turn" where
  "processWithLLM lib s userMsg t =
     (case LLMClient (runtime s) of
        None \<Rightarrow>
          (let response = text_message MessageTypeAssistant
                 ''LLM client is not configured. Please set OPENAI_BASE_URL, OPENAI_API_KEY, and OPENAI_MODEL environment variables.''
                 (Now lib (world t))
           in (Returns None, callOnMessage s response (AddMessage response t)))
      | Some client \<Rightarrow>
          (let userText = extractText userMsg;
               history = llmHistory t @ [\<lparr> Role = ''user'', Message.Content = userText,
                                           ToolCalls = [], ToolCallID = [] \<rparr>];
               t1 = t\<lparr> llmHistory := history, messages := buildLLMMessages s history \<rparr>
           in agentLoop lib s client (buildToolDefs s) 0 t1))"

text \<open>\<open>handleUserInput\<close>: the message goes to the transcript, then the loop runs.\<close>

definition handleUserInput ::
  "('e, 'v, 'w) stdlib \<Rightarrow> ('e, 'v, 'w) Soul \<Rightarrow> wire_Message \<Rightarrow> 'w turn
   \<Rightarrow> 'e error option run \<times> 'w turn" where
  "handleUserInput lib s msg t = processWithLLM lib s msg (AddMessage msg t)"

section \<open>Compaction of the LLM history\<close>

text \<open>
  Modelled from the spec: \<open>should_compress\<close>, \<open>update_token_count\<close> and
  \<open>maybe_compress\<close> of section 4.9. The repository's \<open>maybeCompressHistory\<close>,
  \<open>shouldCompress\<close> and \<open>updateTokenCount\<close> are not among the sources (only their
  tests are), and the \<open>Soul\<close> of the sources has no token counter. The state is the
  LLM history, the token counter and the two budgets; the summarizer is the
  \<open>chat\<close> of the LLM client, which acts on the world and answers with the summary
  text and, when the response reports it, the total token usage.
\<close>

record compaction =
  history :: "Message list"
  token_count :: int
  max_context :: int
  reserved :: int

definition N_KEEP :: nat where "N_KEEP = 2"
definition N_MIN_COMPRESS_OVERHEAD :: nat where "N_MIN_COMPRESS_OVERHEAD = 2"

definition should_compress :: "compaction \<Rightarrow> bool" where
  "should_compress c = (token_count c + reserved c \<ge> max_context c)"

text \<open>\<open>estimate_tokens(text)\<close> is the ceiling of \<open>len(text)/4\<close>; a message costs 4 more.\<close>

definition estimate_tokens :: "string \<Rightarrow> int" where
  "estimate_tokens s = (int (length s) + 3) div 4"

definition estimate_message_tokens :: "Message list \<Rightarrow> int" where
  "estimate_message_tokens ms = (\<Sum>m \<leftarrow> ms. estimate_tokens (Message.Content m) + 4)"

definition update_token_count :: "int option \<Rightarrow> compaction \<Rightarrow> compaction" where
  "update_token_count used c =
     (case used of
        Some n \<Rightarrow> c\<lparr> token_count := n \<rparr>
      | None \<Rightarrow> c\<lparr> token_count := estimate_message_tokens (history c) \<rparr>)"

definition summary_message :: "string \<Rightarrow> Message" where
  "summary_message summary =
     \<lparr> Role = ''system'', Message.Content = ''Conversation so far (summary): '' @ summary,
       ToolCalls = [], ToolCallID = [] \<rparr>"

definition maybe_compress ::
  "(Message list \<Rightarrow> 'w \<Rightarrow> ('e error + string \<times> int option) \<times> 'w) \<Rightarrow> compaction \<Rightarrow> 'w
   \<Rightarrow> 'e error option \<times> compaction \<times> 'w" where
  "maybe_compress summarize c w =
     (if \<not> should_compress c then (None, c, w)
      else if length (history c) \<le> N_KEEP + N_MIN_COMPRESS_OVERHEAD then (None, c, w)
      else
        (let older = take (length (history c) - N_KEEP) (history c);
             tail = drop (length (history c) - N_KEEP) (history c)
         in case summarize older w of
              (Inl err, w') \<Rightarrow> (Some err, c, w')
            | (Inr (summary, used), w') \<Rightarrow>
                (None,
                 update_token_count used (c\<lparr> history := summary_message summary # tail \<rparr>),
                 w')))"

section \<open>Scenarios\<close>

text \<open>
  Concrete inputs, taken from the tests of the repository and from the way
  \<open>cmd/kimi/main.go\<close> assembles the program, at which the definitions above are
  evaluated. In each scenario the world is the list of what the environment has
  observed so far: the operation, the timer, the LLM client, the file system, the
  shell and the handlers each append to it when they are called.
\<close>

subsection \<open>Compaction\<close>

definition user_message :: "string \<Rightarrow> Message" where
  "user_message s = \<lparr> Role = ''user'', Message.Content = s, ToolCalls = [], ToolCallID = [] \<rparr>"

definition assistant_message :: "string \<Rightarrow> Message" where
  "assistant_message s =
     \<lparr> Role = ''assistant'', Message.Content = s, ToolCalls = [], ToolCallID = [] \<rparr>"

text \<open>\<open>TestSoul_MaybeCompressHistory\<close>: six messages, 95 tokens of 100 with 10 reserved.\<close>

definition test_compaction :: compaction where
  "test_compaction =
     \<lparr> history = [user_message ''msg1'', assistant_message ''resp1'', user_message ''msg2'',
                  assistant_message ''resp2'', user_message ''msg3'', assistant_message ''resp3''],
       token_count = 95, max_context = 100, reserved = 10 \<rparr>"

definition test_summarizer :: "Message list \<Rightarrow> unit \<Rightarrow> (string error + string \<times> int option) \<times> unit" where
  "test_summarizer older w = (Inr (''Summary of conversation'', Some 40), w)"

subsection \<open>The retry executor\<close>

datatype retry_observed =
    OpCalled
  | OnRetryCalled int int
  | Waited int

text \<open>
  The \<open>float64\<close> values of these scenarios are integers: an initial wait times a
  power of two, with fewer than 53 significant bits, which \<open>float64\<close> holds exactly
  and on which its product is exact. They are the integers themselves here. The
  conversion \<open>time.Duration(x)\<close> is the one of amd64, which gives the least \<open>int64\<close>
  for every value out of range.
\<close>

definition float64_to_int64_amd64 :: "int \<Rightarrow> int" where
  "float64_to_int64_amd64 v = (if - (2 ^ 63) \<le> v \<and> v < 2 ^ 63 then v else - (2 ^ 63))"

text \<open>
  A context that is never cancelled, a timer that records the wait, and a random
  source that draws the middle of its range, which makes the jitter zero.
\<close>

definition test_retry_env :: "(llm_error, int, retry_observed list) retry_env" where
  "test_retry_env =
     \<lparr> float64 = (\<lambda>x. x),
       math_Pow = (\<lambda>b a. b ^ nat a),
       float_times = (\<lambda>x y. x * y),
       float_plus = (\<lambda>x y. x + y),
       Duration_of = float64_to_int64_amd64,
       Int63n = (\<lambda>n w. (n div 2, w)),
       ctx_Done = (\<lambda>w. False),
       ctx_Err = (\<lambda>w. Foreign (OtherError ''context canceled'')),
       time_After = (\<lambda>d w. (False, w @ [Waited d])) \<rparr>"

text \<open>
  \<open>TestExecuteWithRetry_MaxRetriesExceeded\<close> and
  \<open>TestExecuteWithRetry_CallbackInvocation\<close>: two retries, 10 ms initial wait, 100 ms
  maximal wait, base 2.0, 5 ms jitter, and an operation that fails with a 503 on
  every call. The predicate is \<open>IsRetryableError\<close>.
\<close>

definition time_Millisecond :: int where "time_Millisecond = 1000000"

definition test_retry_config :: "int RetryConfig" where
  "test_retry_config =
     \<lparr> RetryConfig.MaxRetries = 2, InitialWait = 10 * time_Millisecond,
       MaxWait = 100 * time_Millisecond, ExponentialBase = 2, Jitter = 5 * time_Millisecond \<rparr>"

definition test_failing_op :: "retry_observed list \<Rightarrow> llm_error error option \<times> retry_observed list" where
  "test_failing_op w = (Some (Foreign (APIError 503 ''service unavailable'' [])), w @ [OpCalled])"

definition test_onRetry :: "int \<Rightarrow> llm_error error \<Rightarrow> int \<Rightarrow> retry_observed list \<Rightarrow> retry_observed list" where
  "test_onRetry attempt err waitTime w = w @ [OnRetryCalled attempt waitTime]"

text \<open>An error of \<open>fmt.Errorf\<close> as \<open>IsRetryableError\<close> sees it.\<close>

fun as_llm_error :: "llm_error error \<Rightarrow> llm_error" where
  "as_llm_error (Foreign e) = e"
| "as_llm_error (Errorf msg) = OtherError msg"
| "as_llm_error (ErrorfW prefix e) = Wrapped prefix (as_llm_error e)"

definition test_isRetryable :: "llm_error error \<Rightarrow> bool" where
  "test_isRetryable err = IsRetryableError (Some (as_llm_error err))"

text \<open>
  What a world of this scenario has observed: the number of invocations of the
  operation, the attempt numbers given to the callback, and the error of the latest
  invocation, which is always the same 503.
\<close>

definition op_calls :: "retry_observed list \<Rightarrow> nat" where
  "op_calls w = length (filter (\<lambda>x. x = OpCalled) w)"

fun retry_attempts :: "retry_observed list \<Rightarrow> int list" where
  "retry_attempts [] = []"
| "retry_attempts (OnRetryCalled attempt waitTime # w) = attempt # retry_attempts w"
| "retry_attempts (x # w) = retry_attempts w"

definition last_failure :: "retry_observed list \<Rightarrow> llm_error error option" where
  "last_failure w =
     (if op_calls w = 0 then None else Some (Foreign (APIError 503 ''service unavailable'' [])))"

subsection \<open>The agent loop\<close>

datatype observed =
    LLMCalled nat
  | ShellRan string string int
  | FileRead string
  | ToolCallSeen string string
  | MessageSeen MessageType string
  | ToolResultSeen bool string string

datatype tool_value = ShellValue ShellToolResult | FileValue FileResult

text \<open>
  \<open>Quote\<close> puts a plain name in double quotes, a foreign error is its text, the clock
  stands still, and \<open>Marshal\<close> renders a result by its output text alone.
\<close>

definition test_lib :: "(string, tool_value, observed list) stdlib" where
  "test_lib =
     \<lparr> Quote = (\<lambda>s. [CHR 0x22] @ s @ [CHR 0x22]),
       ErrorText = (\<lambda>e. e),
       Marshal = (\<lambda>v. case v of ShellValue r \<Rightarrow> Stdout r | FileValue r \<Rightarrow> FileResult.Content r),
       Now = (\<lambda>w. 0) \<rparr>"

text \<open>The arguments \<open>{"command":"echo hello"}\<close> of the soul tests.\<close>

definition shell_args :: string where
  "shell_args = ''{'' @ [CHR 0x22] @ ''command'' @ [CHR 0x22] @ '':'' @ [CHR 0x22] @ ''echo hello''
                @ [CHR 0x22] @ ''}''"

text \<open>The arguments \<open>{"operation":"read","path":"notes.txt","offset":-1,"limit":1}\<close>.\<close>

definition read_args :: string where
  "read_args = ''{'' @ [CHR 0x22] @ ''operation'' @ [CHR 0x22] @ '':'' @ [CHR 0x22] @ ''read''
               @ [CHR 0x22] @ '','' @ [CHR 0x22] @ ''path'' @ [CHR 0x22] @ '':'' @ [CHR 0x22]
               @ ''notes.txt'' @ [CHR 0x22] @ '','' @ [CHR 0x22] @ ''offset'' @ [CHR 0x22]
               @ '':-1,'' @ [CHR 0x22] @ ''limit'' @ [CHR 0x22] @ '':1}''"

text \<open>
  A shell in which the command prints \<open>hello\<close> and exits with code 0, and a file
  system in which every file holds the two lines \<open>first\<close> and \<open>second\<close>.
  \<open>json.Unmarshal\<close> is given on the two argument texts above.
\<close>

definition test_shell_env :: "(string, observed list) shell_env" where
  "test_shell_env =
     \<lparr> Unmarshal = (\<lambda>a. if a = shell_args then Inr \<lparr> Command = ''echo hello'', Timeout = 0 \<rparr>
                         else Inl ''invalid character''),
       TrimSpace = (\<lambda>c. c),
       CombinedOutput = (\<lambda>dir cmd tmo w.
         ((''hello'' @ [newline], None, False), w @ [ShellRan dir cmd tmo])) \<rparr>"

definition test_file_env :: "(string, observed list) file_env" where
  "test_file_env =
     \<lparr> file_Unmarshal = (\<lambda>a. if a = read_args
                              then Inr \<lparr> Operation = ''read'', FileToolParams.Path = ''notes.txt'',
                                         FileToolParams.Content = [], Offset = - 1, Limit = 1 \<rparr>
                              else Inl ''invalid character''),
       filepath_IsAbs = (\<lambda>p. take 1 p = ''/''),
       filepath_Join = (\<lambda>dir p. dir @ ''/'' @ p),
       filepath_Dir = (\<lambda>p. ''/tmp''),
       os_ReadFile = (\<lambda>p w. (Inr (''first'' @ [newline] @ ''second''), w @ [FileRead p])),
       os_MkdirAll = (\<lambda>p w. (None, w)),
       os_WriteFile = (\<lambda>p c w. (None, w)),
       os_ReadDir = (\<lambda>p w. (Inr [], w)),
       os_RemoveAll = (\<lambda>p w. (None, w)),
       os_Stat = (\<lambda>p w. (False, w)) \<rparr>"

definition toolCallResponse :: "string \<Rightarrow> string \<Rightarrow> string \<Rightarrow> ChatResponse" where
  "toolCallResponse callID toolName args =
     \<lparr> Choices = [\<lparr> Index = 0,
                     Choice.Message = \<lparr> Role = ''assistant'', Message.Content = [],
                         ToolCalls = [\<lparr> ToolCallInfo.ID = callID, ToolCallInfo.Type = ''function'',
                                        ToolCallInfo.Function = \<lparr> FunctionCall.Name = toolName,
                                                                   FunctionCall.Arguments = args \<rparr> \<rparr>],
                         ToolCallID = [] \<rparr>,
                     Delta = assistant_message [], FinishReason = ''tool_calls'' \<rparr>],
       Usage = \<lparr> PromptTokens = 0, CompletionTokens = 0, TotalTokens = 0 \<rparr> \<rparr>"

definition textResponse :: "string \<Rightarrow> ChatResponse" where
  "textResponse content =
     \<lparr> Choices = [\<lparr> Index = 0, Choice.Message = assistant_message content,
                     Delta = assistant_message [], FinishReason = ''stop'' \<rparr>],
       Usage = \<lparr> PromptTokens = 0, CompletionTokens = 0, TotalTokens = 0 \<rparr> \<rparr>"

fun is_LLMCalled :: "observed \<Rightarrow> bool" where
  "is_LLMCalled (LLMCalled n) = True"
| "is_LLMCalled _ = False"

text \<open>The number of calls of the LLM client a world has observed.\<close>

definition chatCalls :: "observed list \<Rightarrow> nat" where
  "chatCalls w = length (filter is_LLMCalled w)"

text \<open>
  \<open>TestSoul_ProcessWithLLM_ToolCall\<close>: the first response asks for one call of a
  tool, the second is the text \<open>done\<close>.
\<close>

definition scripted_client :: "string \<Rightarrow> string \<Rightarrow> (string, observed list) LLMClient" where
  "scripted_client toolName args =
     \<lparr> ChatWithTools = (\<lambda>ms defs w.
         (if chatCalls w = 0 then Inr (toolCallResponse ''call_1'' toolName args)
          else Inr (textResponse ''done''), w @ [LLMCalled (length ms)])) \<rparr>"

text \<open>\<open>TestSoul_ProcessWithLLM_MaxSteps\<close>: every response asks for a call of a tool.\<close>

definition looping_client :: "string \<Rightarrow> string \<Rightarrow> (string, observed list) LLMClient" where
  "looping_client toolName args =
     \<lparr> ChatWithTools = (\<lambda>ms defs w.
         (Inr (toolCallResponse ''call'' toolName args), w @ [LLMCalled (length ms)])) \<rparr>"

text \<open>
  The soul as \<open>main.go\<close> builds it when the program is started without \<open>--yolo\<close>: the
  runtime of \<open>NewRuntime(dir, false)\<close> with the shell tool and the file tool
  registered, and handlers that record what they are given.
\<close>

definition test_soul ::
  "(string, observed list) LLMClient \<Rightarrow> int \<Rightarrow> (string, tool_value, observed list) Soul" where
  "test_soul client maxSteps =
     \<lparr> Agent = \<lparr> Agent.Name = ''kimi'', SystemPrompt = [], Agent.Tools = [''shell'', ''file''] \<rparr>,
       runtime = (NewRuntime ''/tmp'' False)
         \<lparr> Runtime.Tools :=
             [(''shell'', ShellTool_Tool ''{}'' ShellValue (NewShellTool ''/tmp'' 0) test_shell_env),
              (''file'', FileTool_Tool ''{}'' FileValue (NewFileTool ''/tmp'') test_file_env)],
           LLMClient := Some client, MaxSteps := maxSteps \<rparr>,
       OnMessage = Some (\<lambda>m w. w @ [MessageSeen (wire_Message.Type m) (extractText m)]),
       OnToolCall = Some (\<lambda>c w. w @ [ToolCallSeen (ToolCall.Name c) (ToolCall.Arguments c)]),
       OnToolResult = Some (\<lambda>r w. w @ [ToolResultSeen (ToolResult.Success r) (Result r)
                                          (ToolResult.Error r)]),
       OnError = None \<rparr>"

definition new_turn :: "observed list turn" where
  "new_turn = \<lparr> llmHistory = [], Context = [], messages = [], world = [] \<rparr>"

definition user_input :: "string \<Rightarrow> wire_Message" where
  "user_input s = text_message MessageTypeUserInput s 0"

section \<open>Properties of the error taxonomy\<close>

text \<open>
  C4. \<open>IsRetryable\<close> on an \<open>APIError\<close> is true exactly for the status codes 429, 500,
  502, 503 and 504, and false for every other status code; \<open>IsRetryableError\<close> gives
  the same answer on an \<open>APIError\<close>.
\<close>

theorem APIError_retryable_iff:
  "APIError_IsRetryable status = (status \<in> {429, 500, 502, 503, 504})
   \<and> IsRetryableError (Some (APIError status msg body)) = (status \<in> {429, 500, 502, 503, 504})"
  by (simp add: APIError_IsRetryable_def IsRetryableError_def)

theorem APIError_retryable_iff_witness:
  "APIError_IsRetryable 503 \<and> \<not> APIError_IsRetryable 404 \<and> \<not> APIError_IsRetryable 200
   \<and> \<not> APIError_IsRetryable 0
   \<and> IsRetryableError (Some (APIError 429 ''slow down'' ''''))
   \<and> \<not> IsRetryableError (Some (APIError 401 ''unauthorized'' ''''))"
  using APIError_retryable_iff [of 503] APIError_retryable_iff [of 404]
    APIError_retryable_iff [of 200] APIError_retryable_iff [of 0]
    APIError_retryable_iff [of 429 "''slow down''" "''''"]
    APIError_retryable_iff [of 401 "''unauthorized''" "''''"]
  by simp

section \<open>Properties of the approval manager\<close>

text \<open>
  C9. For every manager state and every tool name, \<open>ApproveOnce\<close> leaves the
  manager as it was: afterwards \<open>IsApproved\<close>, \<open>IsSessionApproved\<close> and
  \<open>IsDangerous\<close> (asked about any tool \<open>n\<close>), \<open>GetLevel\<close> and
  \<open>GetSessionApprovedTools\<close> answer what they answered before the call.
\<close>

theorem ApproveOnce_frame:
  "ApproveOnce m toolName = m
   \<and> IsApproved (ApproveOnce m toolName) n = IsApproved m n
   \<and> IsSessionApproved (ApproveOnce m toolName) n = IsSessionApproved m n
   \<and> IsDangerous (ApproveOnce m toolName) n = IsDangerous m n
   \<and> GetLevel (ApproveOnce m toolName) = GetLevel m
   \<and> GetSessionApprovedTools (ApproveOnce m toolName) = GetSessionApprovedTools m"
  by (simp add: ApproveOnce_def)

theorem ApproveOnce_frame_witness:
  "IsApproved (ApproveOnce (NewManager False) ''shell'') ''shell''
     = IsApproved (NewManager False) ''shell''
   \<and> \<not> IsApproved (NewManager False) ''shell''
   \<and> IsDangerous (ApproveOnce (NewManager False) ''shell'') ''shell''
   \<and> GetLevel (ApproveOnce (NewManager False) ''shell'') = LevelPerRequest
   \<and> GetSessionApprovedTools (ApproveOnce (NewManager False) ''shell'') = {}"
  using ApproveOnce_frame [of "NewManager False" "''shell''" "''shell''"]
  by (simp add: NewManager_def IsApproved_def IsDangerous_def GetLevel_def
      GetSessionApprovedTools_def index_bool_def LevelPerRequest_def LevelYOLO_def
      LevelSession_def)

section \<open>Properties of output truncation\<close>

text \<open>
  C6 (the bound on the total length). The claim bounds the output of \<open>truncateText\<close>
  by \<open>total\<close> plus the length of the trailer whenever something was cut. The loop
  checks \<open>totalLen + lineLen > maxTotal\<close> before it appends a line and only then counts
  the line's newline, so a line that fits exactly takes the output one byte over the
  limit: with \<open>maxTotal = 3\<close> and \<open>maxLine = 10\<close> the text \<open>abc\<close>, newline, \<open>d\<close>
  becomes \<open>abc\<close>, newline and the trailer, which is 4 bytes and the trailer.
\<close>

theorem truncateText_exceeds_total_limit:
  "truncateText (''abc'' @ [newline] @ ''d'') 3 10 = Some (''abc'' @ [newline] @ truncation_trailer)
   \<and> int (length (''abc'' @ [newline] @ truncation_trailer)) > 3 + int (length truncation_trailer)"
  by (simp add: truncateText_def truncateLoop.simps newline_def truncation_trailer_def)

text \<open>
  The part of the claim about texts within both limits holds: such a text comes back
  unchanged, and so does the empty text under a limit that is not negative.
\<close>

lemma truncateLoop_within:
  assumes tot: "int (length text) \<le> maxTotal" and lw: "lines_within text maxLine"
  shows "i \<le> length text \<Longrightarrow> ls \<le> i \<Longrightarrow> (\<forall>k. ls \<le> k \<and> k < i \<longrightarrow> text ! k \<noteq> newline) \<Longrightarrow>
     truncateLoop text maxTotal maxLine i
       \<lparr> result = take ls text, totalLen = int ls, lineStart = ls, truncated = False \<rparr>
     = Some \<lparr> result = text, totalLen = int (length text), lineStart = length text + 1,
              truncated = False \<rparr>"
proof (induction "length text - i" arbitrary: i ls)
  case 0
  then have i: "i = length text" by simp
  have len: "int (length text - ls) \<le> maxLine"
    using lw "0.prems" i unfolding lines_within_def by blast
  have line: "take (length text - ls) (drop ls text) = drop ls text" by simp
  have "truncateLoop text maxTotal maxLine (length text)
          \<lparr> result = take ls text, totalLen = int ls, lineStart = ls, truncated = False \<rparr>
        = truncateLoop text maxTotal maxLine (length text + 1)
          \<lparr> result = text, totalLen = int (length text), lineStart = length text + 1,
            truncated = False \<rparr>"
    using len tot "0.prems" i
    by (subst truncateLoop.simps) (simp add: Let_def)
  also have "\<dots> = Some \<lparr> result = text, totalLen = int (length text), lineStart = length text + 1,
              truncated = False \<rparr>"
    by (subst truncateLoop.simps) simp
  finally show ?case using i by simp
next
  case (Suc n)
  then have i: "i < length text" and n: "n = length text - (i + 1)" by auto
  show ?case
  proof (cases "text ! i = newline")
    case True
    have len: "int (i - ls) \<le> maxLine"
      using lw Suc.prems i unfolding lines_within_def by (metis less_or_eq_imp_le)
    have tk: "take ls text @ take (i + 1 - ls) (drop ls text) = take (i + 1) text"
      using Suc.prems take_add [of ls "i + 1 - ls" "text"] by simp
    have "truncateLoop text maxTotal maxLine i
            \<lparr> result = take ls text, totalLen = int ls, lineStart = ls, truncated = False \<rparr>
          = truncateLoop text maxTotal maxLine (i + 1)
            \<lparr> result = take (i + 1) text, totalLen = int (i + 1), lineStart = i + 1,
              truncated = False \<rparr>"
      using len tot Suc.prems i True tk
      by (subst truncateLoop.simps) (simp add: Let_def ac_simps)
    also have "\<dots> = Some \<lparr> result = text, totalLen = int (length text),
                             lineStart = length text + 1, truncated = False \<rparr>"
    proof (rule Suc.hyps(1) [OF n])
      show "i + 1 \<le> length text" using i by simp
      show "i + 1 \<le> i + 1" by simp
      show "\<forall>k. i + 1 \<le> k \<and> k < i + 1 \<longrightarrow> text ! k \<noteq> newline" by auto
    qed
    finally show ?thesis .
  next
    case False
    have "truncateLoop text maxTotal maxLine i
            \<lparr> result = take ls text, totalLen = int ls, lineStart = ls, truncated = False \<rparr>
          = truncateLoop text maxTotal maxLine (i + 1)
            \<lparr> result = take ls text, totalLen = int ls, lineStart = ls, truncated = False \<rparr>"
      using i False by (subst truncateLoop.simps) simp
    also have "\<dots> = Some \<lparr> result = text, totalLen = int (length text),
                             lineStart = length text + 1, truncated = False \<rparr>"
    proof (rule Suc.hyps(1) [OF n])
      show "i + 1 \<le> length text" using i by simp
      show "ls \<le> i + 1" using Suc.prems by simp
      show "\<forall>k. ls \<le> k \<and> k < i + 1 \<longrightarrow> text ! k \<noteq> newline"
        using Suc.prems False by (auto simp: less_Suc_eq)
    qed
    finally show ?thesis .
  qed
qed

lemma truncateText_unchanged:
  assumes "int (length text) \<le> maxTotal" and "lines_within text maxLine"
  shows "truncateText text maxTotal maxLine = Some text"
  using truncateLoop_within [OF assms, of 0 0]
  by (simp add: truncateText_def)

lemma truncateText_empty:
  "0 \<le> maxTotal \<Longrightarrow> truncateText [] maxTotal maxLine = Some []"
  by (simp add: truncateText_def truncateLoop.simps Let_def)

section \<open>Properties of the shell tool\<close>

text \<open>
  \<open>Execute\<close> returns a Go error exactly when the arguments do not unmarshal or the
  trimmed command is empty. A command that was run and exited with a non-zero code
  gives that code with \<open>Success = false\<close>; the text \<open>command timed out\<close> is set
  when the error of the run is not an \<open>*exec.ExitError\<close> and the deadline has passed.
\<close>

lemma ShellTool_Execute_error_iff:
  "(\<exists>e. fst (ShellTool_Execute t env args w) = Inl e)
   \<longleftrightarrow> (\<exists>e. Unmarshal env args = Inl e)
       \<or> (\<exists>params. Unmarshal env args = Inr params \<and> TrimSpace env (Command params) = [])"
  by (auto simp: ShellTool_Execute_def Let_def split: sum.splits prod.splits)

lemma ShellTool_Execute_exit_code:
  assumes "Unmarshal env args = Inr params" "TrimSpace env (Command params) \<noteq> []"
    and "CombinedOutput env (ShellTool.workDir t) (Command params)
           (if Timeout params > 0 then int64 (Timeout params * time_Second) else timeout t) w
         = ((output, Some (ExitError code stderr), deadline), w')"
  shows "fst (ShellTool_Execute t env args w)
         = Inr \<lparr> ShellToolResult.Success = False, Stdout = output, Stderr = stderr,
                 ExitCode = code, ShellToolResult.Error = [] \<rparr>"
  using assms by (simp add: ShellTool_Execute_def Let_def)

lemma ShellTool_Execute_timed_out:
  assumes "Unmarshal env args = Inr params" "TrimSpace env (Command params) \<noteq> []"
    and "CombinedOutput env (ShellTool.workDir t) (Command params)
           (if Timeout params > 0 then int64 (Timeout params * time_Second) else timeout t) w
         = ((output, Some (OtherExecError msg), True), w')"
  shows "fst (ShellTool_Execute t env args w)
         = Inr \<lparr> ShellToolResult.Success = False, Stdout = output, Stderr = [],
                 ExitCode = - 1, ShellToolResult.Error = ''command timed out'' \<rparr>"
  using assms by (simp add: ShellTool_Execute_def Let_def)

text \<open>
  C10 (the result when the deadline fires). \<open>Execute\<close> looks at the error of the run
  in this order: an \<open>*exec.ExitError\<close> first, the deadline of the context second. A
  command killed at the deadline ends with an \<open>*exec.ExitError\<close> whose exit code is
  \<open>-1\<close>, so the first branch is taken and \<open>Error\<close> stays empty: the result has
  \<open>Success = false\<close> and \<open>ExitCode = -1\<close> but not the text \<open>command timed out\<close>.
\<close>

theorem ShellTool_Execute_killed_on_deadline:
  "fst (ShellTool_Execute (NewShellTool ''/tmp'' 0)
         \<lparr> Unmarshal = (\<lambda>a. (Inr \<lparr> Command = a, Timeout = 1 \<rparr> :: string + ShellToolParams)),
           TrimSpace = (\<lambda>c. c),
           CombinedOutput = (\<lambda>dir cmd tmo w. (([], Some (ExitError (- 1) []), True), w)) \<rparr>
         ''sleep 10'' ())
   = Inr \<lparr> ShellToolResult.Success = False, Stdout = [], Stderr = [], ExitCode = - 1,
           ShellToolResult.Error = [] \<rparr>"
  by (simp add: ShellTool_Execute_def NewShellTool_def)

section \<open>Properties of compaction\<close>

lemma drop_last_two:
  "2 \<le> length xs \<Longrightarrow> drop (length xs - 2) xs = [xs ! (length xs - 2), xs ! (length xs - 1)]"
proof -
  assume len: "2 \<le> length xs"
  define n where "n = length xs - 2"
  have n: "length xs = Suc (Suc n)" using len by (simp add: n_def)
  have "drop n xs = xs ! n # drop (Suc n) xs"
    by (rule Cons_nth_drop_Suc [symmetric]) (simp add: n)
  moreover have "drop (Suc n) xs = xs ! Suc n # drop (Suc (Suc n)) xs"
    by (rule Cons_nth_drop_Suc [symmetric]) (simp add: n)
  moreover have "drop (Suc (Suc n)) xs = []"
    by (simp add: n)
  moreover have "length xs - 1 = Suc n"
    by (simp add: n)
  ultimately show ?thesis by (simp add: n_def)
qed

text \<open>
  C7. When compaction is triggered (\<open>token_count + reserved \<ge> max_context\<close>) on a
  history of at least 5 messages and the summarizer replies, \<open>maybe_compress\<close> returns
  no error and the history becomes exactly three messages: a system message whose
  content is \<open>Conversation so far (summary): \<close> followed by the reply, then the last
  two entries of the previous history, unchanged and in their order.
\<close>

theorem maybe_compress_replaces_history:
  assumes trig: "should_compress c"
    and len: "5 \<le> length (history c)"
    and reply: "summarize (take (length (history c) - 2) (history c)) w = (Inr (summary, used), w')"
  shows "fst (maybe_compress summarize c w) = None
         \<and> history (fst (snd (maybe_compress summarize c w)))
             = [\<lparr> Role = ''system'',
                   Message.Content = ''Conversation so far (summary): '' @ summary,
                   ToolCalls = [], ToolCallID = [] \<rparr>,
                history c ! (length (history c) - 2),
                history c ! (length (history c) - 1)]
         \<and> length (history (fst (snd (maybe_compress summarize c w)))) = 3"
proof -
  have tail: "drop (length (history c) - 2) (history c)
              = [history c ! (length (history c) - 2), history c ! (length (history c) - 1)]"
    using len by (intro drop_last_two) simp
  have "maybe_compress summarize c w
        = (None, update_token_count used
                   (c\<lparr> history := summary_message summary # drop (length (history c) - 2) (history c) \<rparr>),
           w')"
    using trig len reply
    by (simp add: maybe_compress_def N_KEEP_def N_MIN_COMPRESS_OVERHEAD_def Let_def)
  then show ?thesis
    using tail by (simp add: update_token_count_def summary_message_def split: option.split)
qed

theorem maybe_compress_replaces_history_witness:
  "should_compress test_compaction
   \<and> 5 \<le> length (history test_compaction)
   \<and> fst (maybe_compress test_summarizer test_compaction ()) = None
   \<and> history (fst (snd (maybe_compress test_summarizer test_compaction ())))
       = [\<lparr> Role = ''system'',
             Message.Content = ''Conversation so far (summary): Summary of conversation'',
             ToolCalls = [], ToolCallID = [] \<rparr>,
          user_message ''msg3'', assistant_message ''resp3'']"
proof -
  have trig: "should_compress test_compaction"
    by (simp add: should_compress_def test_compaction_def)
  have len: "5 \<le> length (history test_compaction)"
    by (simp add: test_compaction_def)
  have reply: "test_summarizer (take (length (history test_compaction) - 2) (history test_compaction)) ()
               = (Inr (''Summary of conversation'', Some 40), ())"
    by (simp add: test_summarizer_def)
  show ?thesis
    using trig len reply
      maybe_compress_replaces_history [of test_compaction test_summarizer "()"
        "''Summary of conversation''" "Some 40" "()"]
    by (simp add: test_compaction_def)
qed

section \<open>Properties of the backoff\<close>

text \<open>
  Whatever the floating-point operations yield, a call of \<open>ExponentialBackoff\<close> that
  returns gives a value between 0 and a non-negative \<open>maxWait\<close>, by its two clamps.
  It returns whenever the jitter is below \<open>2^62\<close> nanoseconds, and panics otherwise.
  Without jitter the result is the converted product, clamped.
\<close>

lemma int64_id:
  "- (2 ^ 63) \<le> x \<Longrightarrow> x < 2 ^ 63 \<Longrightarrow> int64 x = x"
  by (simp add: int64_def)

lemma int64_twice_nonpos:
  assumes "2 ^ 62 \<le> j" "j < 2 ^ 63"
  shows "int64 (2 * j) \<le> 0"
proof -
  have "(2 * j + 2 ^ 63) mod 2 ^ 64 = 2 * j + 2 ^ 63 - 2 ^ 64"
    using assms by (intro mod_pos_pos_trivial [THEN trans] minus_mod_self2 [symmetric, THEN trans]) auto
  then show ?thesis
    using assms by (simp add: int64_def)
qed

lemma ExponentialBackoff_in_range:
  "ExponentialBackoff env attempt initialWait maxWait base jitter w = (Returns d, w')
   \<Longrightarrow> 0 \<le> maxWait \<Longrightarrow> 0 \<le> d \<and> d \<le> maxWait"
  by (auto simp: ExponentialBackoff_def Let_def split: prod.splits if_splits run.splits)

lemma ExponentialBackoff_returns:
  "jitter < 2 ^ 62 \<Longrightarrow>
   \<exists>d w'. ExponentialBackoff env attempt initialWait maxWait base jitter w = (Returns d, w')"
  by (auto simp: ExponentialBackoff_def Let_def int64_id split: prod.splits)

lemma ExponentialBackoff_panics:
  "2 ^ 62 \<le> jitter \<Longrightarrow> jitter < 2 ^ 63 \<Longrightarrow>
   ExponentialBackoff env attempt initialWait maxWait base jitter w = (Panics, w)"
  using int64_twice_nonpos [of jitter]
  by (simp add: ExponentialBackoff_def Let_def)

lemma ExponentialBackoff_no_jitter:
  "jitter \<le> 0 \<Longrightarrow>
   ExponentialBackoff env attempt initialWait maxWait base jitter w
   = (Returns (max 0 (min maxWait
        (Duration_of env (float_times env (float64 env initialWait)
                            (math_Pow env base (float64 env attempt)))))), w)"
  by (simp add: ExponentialBackoff_def Let_def max_def min_def)

text \<open>
  C5 (the overflow case). With 100 ms initial wait, 5 s maximal wait, base 2.0 and no
  jitter, attempt 6 gives the maximal wait: the product, 6.4 s, is above it. At
  attempt 40 the product is \<open>10^8 * 2^40\<close>, above the range of \<open>int64\<close>; the
  conversion \<open>time.Duration(backoff)\<close> of amd64 yields the least \<open>int64\<close>, which is
  not above \<open>maxWait\<close> and is negative, so the result is 0 and not the maximal wait.
\<close>

theorem ExponentialBackoff_overflow_gives_zero:
  "ExponentialBackoff test_retry_env 6 (100 * time_Millisecond) (5 * time_Second) 2 0 []
     = (Returns (5 * time_Second), [])
   \<and> ExponentialBackoff test_retry_env 40 (100 * time_Millisecond) (5 * time_Second) 2 0 []
     = (Returns 0, [])"
  by (simp add: ExponentialBackoff_def test_retry_env_def float64_to_int64_amd64_def
      time_Millisecond_def time_Second_def)

section \<open>Properties of the retry executor\<close>

text \<open>
  What the operation, the callback and the environment do is read off the world by
  three observers: \<open>calls\<close>, the number of invocations of the operation so far,
  \<open>retries\<close>, the attempt numbers the callback has been given so far, and \<open>failed\<close>,
  the error of the latest invocation. When the operation fails on every invocation
  with an error the predicate accepts (every error, when the predicate is nil), the
  context is never cancelled and the jitter is below \<open>2^62\<close> nanoseconds, the loop
  started at \<open>attempt\<close> invokes the operation \<open>MaxRetries - attempt + 1\<close> times, gives
  the callback the attempt numbers \<open>attempt + 1, ..., MaxRetries\<close> in order, and
  returns the error \<open>max retries (N) exceeded: \<close> wrapping the error of the last
  invocation.
\<close>

lemma retryLoop_all_fail:
  fixes calls :: "'w \<Rightarrow> nat" and retries :: "'w \<Rightarrow> int list" and failed :: "'w \<Rightarrow> 'e error option"
  assumes notdone: "\<And>w. \<not> ctx_Done env w"
    and timer: "\<And>d w. \<not> fst (time_After env d w) \<and> calls (snd (time_After env d w)) = calls w
                  \<and> retries (snd (time_After env d w)) = retries w
                  \<and> failed (snd (time_After env d w)) = failed w"
    and rand: "\<And>n w. calls (snd (Int63n env n w)) = calls w
                  \<and> retries (snd (Int63n env n w)) = retries w
                  \<and> failed (snd (Int63n env n w)) = failed w"
    and fails: "\<And>w. \<exists>e. fst (fn w) = Some e
                  \<and> (case isRetryable of Some p \<Rightarrow> p e | None \<Rightarrow> True)
                  \<and> calls (snd (fn w)) = calls w + 1
                  \<and> retries (snd (fn w)) = retries w
                  \<and> failed (snd (fn w)) = Some e"
    and callback: "\<And>a e d w. calls (cb a e d w) = calls w
                  \<and> retries (cb a e d w) = retries w @ [a]
                  \<and> failed (cb a e d w) = failed w"
    and jitter: "Jitter config < 2 ^ 62"
  shows "attempt \<le> RetryConfig.MaxRetries config \<Longrightarrow>
     \<exists>e w'. retryLoop env config fn isRetryable (Some cb) attempt lastErr w
              = (Returns (Some (maxRetriesError (RetryConfig.MaxRetries config) (Some e))), w')
          \<and> calls w' = calls w + nat (RetryConfig.MaxRetries config - attempt) + 1
          \<and> retries w' = retries w @ [attempt + 1 .. RetryConfig.MaxRetries config]
          \<and> failed w' = Some e"
proof (induction "nat (RetryConfig.MaxRetries config - attempt)" arbitrary: attempt lastErr w)
  case 0
  then have att: "attempt = RetryConfig.MaxRetries config" by simp
  obtain e w1 where fn: "fn w = (Some e, w1)"
    and re: "(case isRetryable of Some p \<Rightarrow> p e | None \<Rightarrow> True)"
    and obs: "calls w1 = calls w + 1" "retries w1 = retries w" "failed w1 = Some e"
    using fails [of w] by (cases "fn w") auto
  have "retryLoop env config fn isRetryable (Some cb) attempt lastErr w
        = (Returns (Some (maxRetriesError (RetryConfig.MaxRetries config) (Some e))), w1)"
    using att fn re notdone
    by (subst retryLoop.simps) (auto split: option.splits)
  then show ?case
    using att obs by simp
next
  case (Suc k)
  then have lt: "attempt < RetryConfig.MaxRetries config"
    and k: "k = nat (RetryConfig.MaxRetries config - (attempt + 1))"
    by auto
  obtain e w1 where fn: "fn w = (Some e, w1)"
    and re: "(case isRetryable of Some p \<Rightarrow> p e | None \<Rightarrow> True)"
    and obs1: "calls w1 = calls w + 1" "retries w1 = retries w" "failed w1 = Some e"
    using fails [of w] by (cases "fn w") auto
  obtain waitTime w2 where bo: "ExponentialBackoff env attempt (InitialWait config) (MaxWait config)
                          (ExponentialBase config) (Jitter config) w1 = (Returns waitTime, w2)"
    using ExponentialBackoff_returns [OF jitter, of env attempt "InitialWait config"
        "MaxWait config" "ExponentialBase config" w1]
    by blast
  have obs2: "calls w2 = calls w1 \<and> retries w2 = retries w1 \<and> failed w2 = failed w1"
    using bo rand [of "int64 (2 * Jitter config)" w1]
    by (auto simp: ExponentialBackoff_def Let_def split: if_splits prod.splits)
  let ?w3 = "cb (attempt + 1) e waitTime w2"
  obtain w4 where sl: "time_After env waitTime ?w3 = (False, w4)"
    using timer [of waitTime ?w3] by (cases "time_After env waitTime ?w3") auto
  have obs4: "calls w4 = calls w + 1" "retries w4 = retries w @ [attempt + 1]" "failed w4 = Some e"
    using timer [of waitTime ?w3] sl callback [of "attempt + 1" e waitTime w2] obs2 obs1
    by auto
  have step: "retryLoop env config fn isRetryable (Some cb) attempt lastErr w
        = retryLoop env config fn isRetryable (Some cb) (attempt + 1) (Some e) w4"
    using lt fn re notdone bo sl
    by (subst retryLoop.simps) (auto split: option.splits)
  from Suc.hyps(1) [OF k, of "Some e" w4] lt
  obtain e' w' where
    r: "retryLoop env config fn isRetryable (Some cb) (attempt + 1) (Some e) w4
        = (Returns (Some (maxRetriesError (RetryConfig.MaxRetries config) (Some e'))), w')"
    and n: "calls w' = calls w4 + nat (RetryConfig.MaxRetries config - (attempt + 1)) + 1"
    and a: "retries w' = retries w4 @ [attempt + 1 + 1 .. RetryConfig.MaxRetries config]"
    and l: "failed w' = Some e'"
    by auto
  have "retryLoop env config fn isRetryable (Some cb) attempt lastErr w
        = (Returns (Some (maxRetriesError (RetryConfig.MaxRetries config) (Some e'))), w')"
    using step r by simp
  moreover have "calls w' = calls w + nat (RetryConfig.MaxRetries config - attempt) + 1"
    using n lt obs4 by simp
  moreover have "retries w' = retries w @ [attempt + 1 .. RetryConfig.MaxRetries config]"
    using a lt obs4 upto_rec1 [of "attempt + 1" "RetryConfig.MaxRetries config"]
    by simp
  ultimately show ?case using l by blast
qed

lemma ExecuteWithRetry_exhausts_retries:
  fixes calls :: "'w \<Rightarrow> nat" and retries :: "'w \<Rightarrow> int list" and failed :: "'w \<Rightarrow> 'e error option"
  assumes nonneg: "0 \<le> RetryConfig.MaxRetries config"
    and jitter: "Jitter config < 2 ^ 62"
    and notdone: "\<And>w. \<not> ctx_Done env w"
    and timer: "\<And>d w. \<not> fst (time_After env d w) \<and> calls (snd (time_After env d w)) = calls w
                  \<and> retries (snd (time_After env d w)) = retries w
                  \<and> failed (snd (time_After env d w)) = failed w"
    and rand: "\<And>n w. calls (snd (Int63n env n w)) = calls w
                  \<and> retries (snd (Int63n env n w)) = retries w
                  \<and> failed (snd (Int63n env n w)) = failed w"
    and fails: "\<And>w. \<exists>e. fst (fn w) = Some e
                  \<and> (case isRetryable of Some p \<Rightarrow> p e | None \<Rightarrow> True)
                  \<and> calls (snd (fn w)) = calls w + 1
                  \<and> retries (snd (fn w)) = retries w
                  \<and> failed (snd (fn w)) = Some e"
    and callback: "\<And>a e d w. calls (onRetry a e d w) = calls w
                  \<and> retries (onRetry a e d w) = retries w @ [a]
                  \<and> failed (onRetry a e d w) = failed w"
  shows "\<exists>e w'.
           ExecuteWithRetry env two (Some config) fn isRetryable (Some onRetry) w
             = (Returns (Some (ErrorfW (''max retries ('' @ showInt (RetryConfig.MaxRetries config)
                                        @ '') exceeded: '') e)), w')
           \<and> failed w' = Some e
           \<and> calls w' = calls w + nat (RetryConfig.MaxRetries config) + 1
           \<and> retries w' = retries w @ [1 .. RetryConfig.MaxRetries config]"
proof -
  from retryLoop_all_fail [of env calls retries failed fn isRetryable onRetry config 0 None w,
      OF notdone timer rand fails callback jitter] nonneg
  obtain e w' where
    "retryLoop env config fn isRetryable (Some onRetry) 0 None w
       = (Returns (Some (maxRetriesError (RetryConfig.MaxRetries config) (Some e))), w')"
    and "calls w' = calls w + nat (RetryConfig.MaxRetries config - 0) + 1"
    and "retries w' = retries w @ [0 + 1 .. RetryConfig.MaxRetries config]"
    and "failed w' = Some e"
    by blast
  then show ?thesis
    by (simp add: ExecuteWithRetry_def maxRetriesError_def)
qed

text \<open>
  In the scenario of the tests this holds for every number of retries and every
  jitter below \<open>2^62\<close> nanoseconds.
\<close>

lemma retry_attempts_append:
  "retry_attempts (w @ v) = retry_attempts w @ retry_attempts v"
  by (induction w rule: retry_attempts.induct) simp_all

lemma ExecuteWithRetry_exhausts_retries_in_tests:
  assumes "0 \<le> n" "j < 2 ^ 62"
  shows "\<exists>w'. ExecuteWithRetry test_retry_env 2
                 (Some (test_retry_config\<lparr> RetryConfig.MaxRetries := n, Jitter := j \<rparr>))
                 test_failing_op (Some test_isRetryable) (Some test_onRetry) w
               = (Returns (Some (ErrorfW (''max retries ('' @ showInt n @ '') exceeded: '')
                                   (Foreign (APIError 503 ''service unavailable'' [])))), w')
             \<and> op_calls w' = op_calls w + nat n + 1
             \<and> retry_attempts w' = retry_attempts w @ [1 .. n]"
proof -
  let ?config = "test_retry_config\<lparr> RetryConfig.MaxRetries := n, Jitter := j \<rparr>"
  have "\<exists>e w'. ExecuteWithRetry test_retry_env 2 (Some ?config) test_failing_op
                   (Some test_isRetryable) (Some test_onRetry) w
             = (Returns (Some (ErrorfW (''max retries ('' @ showInt (RetryConfig.MaxRetries ?config)
                                        @ '') exceeded: '') e)), w')
           \<and> last_failure w' = Some e
           \<and> op_calls w' = op_calls w + nat (RetryConfig.MaxRetries ?config) + 1
           \<and> retry_attempts w' = retry_attempts w @ [1 .. RetryConfig.MaxRetries ?config]"
  proof (rule ExecuteWithRetry_exhausts_retries
      [where calls = op_calls and retries = retry_attempts and failed = last_failure])
    show "0 \<le> RetryConfig.MaxRetries ?config" "Jitter ?config < 2 ^ 62"
      using assms by simp_all
    show "\<not> ctx_Done test_retry_env w" for w
      by (simp add: test_retry_env_def)
    show "\<not> fst (time_After test_retry_env d w)
          \<and> op_calls (snd (time_After test_retry_env d w)) = op_calls w
          \<and> retry_attempts (snd (time_After test_retry_env d w)) = retry_attempts w
          \<and> last_failure (snd (time_After test_retry_env d w)) = last_failure w" for d w
      by (simp add: test_retry_env_def op_calls_def last_failure_def retry_attempts_append)
    show "op_calls (snd (Int63n test_retry_env k w)) = op_calls w
          \<and> retry_attempts (snd (Int63n test_retry_env k w)) = retry_attempts w
          \<and> last_failure (snd (Int63n test_retry_env k w)) = last_failure w" for k w
      by (simp add: test_retry_env_def)
    show "\<exists>e. fst (test_failing_op w) = Some e
            \<and> (case Some test_isRetryable of Some p \<Rightarrow> p e | None \<Rightarrow> True)
            \<and> op_calls (snd (test_failing_op w)) = op_calls w + 1
            \<and> retry_attempts (snd (test_failing_op w)) = retry_attempts w
            \<and> last_failure (snd (test_failing_op w)) = Some e" for w
      by (simp add: test_failing_op_def test_isRetryable_def IsRetryableError_def
          APIError_IsRetryable_def op_calls_def last_failure_def retry_attempts_append)
    show "op_calls (test_onRetry a e d w) = op_calls w
          \<and> retry_attempts (test_onRetry a e d w) = retry_attempts w @ [a]
          \<and> last_failure (test_onRetry a e d w) = last_failure w" for a e d w
      by (simp add: test_onRetry_def op_calls_def last_failure_def retry_attempts_append)
  qed
  then obtain e w' where
    run: "ExecuteWithRetry test_retry_env 2 (Some ?config) test_failing_op
                   (Some test_isRetryable) (Some test_onRetry) w
             = (Returns (Some (ErrorfW (''max retries ('' @ showInt n @ '') exceeded: '') e)), w')"
    and e: "last_failure w' = Some e"
    and c: "op_calls w' = op_calls w + nat n + 1"
    and r: "retry_attempts w' = retry_attempts w @ [1 .. n]"
    by auto
  have "e = Foreign (APIError 503 ''service unavailable'' [])"
    using e by (simp add: last_failure_def split: if_splits)
  then show ?thesis
    using run c r by blast
qed

text \<open>
  With a jitter of \<open>2^62\<close> nanoseconds or more the first backoff panics: the operation
  has been invoked once, the callback not at all, and no error is returned.
\<close>

lemma ExecuteWithRetry_panics:
  assumes retries: "0 < RetryConfig.MaxRetries config"
    and jitter: "2 ^ 62 \<le> Jitter config" "Jitter config < 2 ^ 63"
    and notdone: "\<not> ctx_Done env w"
    and fails: "fn w = (Some e, w1)" "(case isRetryable of Some p \<Rightarrow> p e | None \<Rightarrow> True)"
  shows "ExecuteWithRetry env two (Some config) fn isRetryable onRetry w = (Panics, w1)"
  using assms ExponentialBackoff_panics [OF jitter, of env 0 "InitialWait config" "MaxWait config"
      "ExponentialBase config" w1]
  by (simp add: ExecuteWithRetry_def) (subst retryLoop.simps, auto split: option.splits)

text \<open>
  C3 (a jitter of \<open>2^62\<close> nanoseconds). The configuration and the operation of
  \<open>TestExecuteWithRetry_MaxRetriesExceeded\<close>, which fails with a 503 on every call,
  under a context that is never cancelled: with its jitter of 5 ms the operation is
  invoked three times, the callback is given the attempts 1 and 2, and the error
  \<open>max retries (2) exceeded\<close> wraps the 503. With the jitter set to \<open>2^62\<close>
  nanoseconds, \<open>int64(2*jitter)\<close> is the least \<open>int64\<close> and \<open>rand.Int63n\<close> panics in
  the first backoff: the operation has been invoked once, the callback never, and
  \<open>ExecuteWithRetry\<close> returns no error.
\<close>

theorem ExecuteWithRetry_large_jitter_panics:
  "ExecuteWithRetry test_retry_env 2 (Some test_retry_config) test_failing_op
       (Some test_isRetryable) (Some test_onRetry) []
     = (Returns (Some (ErrorfW ''max retries (2) exceeded: ''
                         (Foreign (APIError 503 ''service unavailable'' [])))),
        [OpCalled, OnRetryCalled 1 (10 * time_Millisecond), Waited (10 * time_Millisecond),
         OpCalled, OnRetryCalled 2 (20 * time_Millisecond), Waited (20 * time_Millisecond),
         OpCalled])
   \<and> ExecuteWithRetry test_retry_env 2 (Some (test_retry_config\<lparr> Jitter := 2 ^ 62 \<rparr>))
       test_failing_op (Some test_isRetryable) (Some test_onRetry) []
     = (Panics, [OpCalled])"
  by code_simp

section \<open>Properties of the file tool\<close>

text \<open>
  Reading a file that exists with a negative offset and a positive limit panics: the
  offset is used as the lower bound of the slice as it is. With an offset that is
  not negative, and a sum of offset and limit that does not wrap around, \<open>readFile\<close>
  returns.
\<close>

lemma readFile_panics:
  "os_ReadFile env path w = (Inr content, w') \<Longrightarrow> offset < 0 \<Longrightarrow> 0 < limit \<Longrightarrow>
   readFile env path offset limit w = (Panics, w')"
  by (simp add: readFile_def Let_def)

lemma readFile_returns:
  assumes "0 \<le> offset" "offset + limit < 2 ^ 63"
  shows "\<exists>res w'. readFile env path offset limit w = (Returns res, w')"
proof (cases "os_ReadFile env path w")
  case (Pair r w')
  show ?thesis
  proof (cases r)
    case (Inl msg)
    then show ?thesis using Pair by (simp add: readFile_def)
  next
    case (Inr content)
    let ?n = "int (length (strings_Split content))"
    let ?o = "if offset > ?n then ?n else offset"
    have "0 < limit \<Longrightarrow> int64 (?o + limit) = ?o + limit"
      using assms by (intro int64_id) auto
    then show ?thesis
      using Pair Inr assms by (auto simp: readFile_def Let_def)
  qed
qed

lemma FileTool_Execute_read_panics:
  assumes "file_Unmarshal env args = Inr params" "Operation params = ''read''"
    and "os_ReadFile env (resolvePath t env (FileToolParams.Path params)) w = (Inr content, w')"
    and "Offset params < 0" "0 < Limit params"
  shows "FileTool_Execute t env args w = (Panics, w')"
  using assms readFile_panics [of env "resolvePath t env (FileToolParams.Path params)" w content w'
      "Offset params" "Limit params"]
  by (simp add: FileTool_Execute_def Let_def)

section \<open>Properties of the agent loop\<close>

subsection \<open>One tool call\<close>

text \<open>
  \<open>executeToolCall\<close> by cases: the tool is not registered, its \<open>Execute\<close> returns an
  error, returns a value, or panics. Whenever \<open>executeToolCall\<close> returns, the Go
  error beside the result is nil; it panics exactly when the tool does.
\<close>

lemma executeToolCall_not_found:
  "map_of (Runtime.Tools (runtime s)) (ToolCall.Name call) = None \<Longrightarrow>
   executeToolCall lib s call w
   = (Returns (\<lparr> CallID = ToolCall.ID call, ToolResult.Success = False, Result = [],
                 ToolResult.Error = ''tool '' @ Quote lib (ToolCall.Name call) @ '' not found'' \<rparr>,
               None), w)"
  by (simp add: executeToolCall_def ToolSet_Get_def)

lemma executeToolCall_tool_error:
  "map_of (Runtime.Tools (runtime s)) (ToolCall.Name call) = Some tool \<Longrightarrow>
   Execute tool (ToolCall.Arguments call) w = (Returns (Inl err), w') \<Longrightarrow>
   executeToolCall lib s call w
   = (Returns (\<lparr> CallID = ToolCall.ID call, ToolResult.Success = False, Result = [],
                 ToolResult.Error = Error_text lib err \<rparr>, None), w')"
  by (simp add: executeToolCall_def ToolSet_Get_def)

lemma executeToolCall_tool_value:
  "map_of (Runtime.Tools (runtime s)) (ToolCall.Name call) = Some tool \<Longrightarrow>
   Execute tool (ToolCall.Arguments call) w = (Returns (Inr v), w') \<Longrightarrow>
   executeToolCall lib s call w
   = (Returns (\<lparr> CallID = ToolCall.ID call, ToolResult.Success = True, Result = Marshal lib v,
                 ToolResult.Error = [] \<rparr>, None), w')"
  by (simp add: executeToolCall_def ToolSet_Get_def)

lemma executeToolCall_tool_panics:
  "map_of (Runtime.Tools (runtime s)) (ToolCall.Name call) = Some tool \<Longrightarrow>
   Execute tool (ToolCall.Arguments call) w = (Panics, w') \<Longrightarrow>
   executeToolCall lib s call w = (Panics, w')"
  by (simp add: executeToolCall_def ToolSet_Get_def)

lemma executeToolCall_no_error:
  "executeToolCall lib s call w = (Returns (res, err), w') \<Longrightarrow>
   err = None \<and> CallID res = ToolCall.ID call"
  by (auto simp: executeToolCall_def split: sum.splits prod.splits run.splits)

lemma executeToolCall_panics_iff:
  "fst (executeToolCall lib s call w) = Panics
   \<longleftrightarrow> (\<exists>tool. map_of (Runtime.Tools (runtime s)) (ToolCall.Name call) = Some tool
              \<and> fst (Execute tool (ToolCall.Arguments call) w) = Panics)"
  by (auto simp: executeToolCall_def ToolSet_Get_def
      split: sum.splits prod.splits run.splits option.splits)

text \<open>
  So the \<open>tool execution error\<close> return of the loop is never taken: the loop over the
  tool calls of a response returns no error, and when none of the calls makes its
  tool panic it returns.
\<close>

lemma toolCallStep_no_error:
  "fst (toolCallStep lib s tc t) \<noteq> Returns (Some e)"
proof -
  let ?call = "\<lparr> ToolCall.ID = ToolCallInfo.ID tc,
                  ToolCall.Name = FunctionCall.Name (ToolCallInfo.Function tc),
                  ToolCall.Arguments = FunctionCall.Arguments (ToolCallInfo.Function tc) \<rparr>"
  have "\<And>w res err w'. executeToolCall lib s ?call w = (Returns (res, err), w') \<Longrightarrow> err = None"
    by (rule executeToolCall_no_error [THEN conjunct1])
  then show ?thesis
    by (auto simp: toolCallStep_def Let_def split: prod.splits run.splits option.splits)
qed

lemma toolCallsLoop_no_error:
  "fst (toolCallsLoop lib s tcs t) \<noteq> Returns (Some e)"
proof (induction tcs arbitrary: t)
  case Nil
  show ?case by simp
next
  case (Cons tc tcs)
  obtain r t' where st: "toolCallStep lib s tc t = (r, t')"
    by (cases "toolCallStep lib s tc t") auto
  show ?case
  proof (cases r)
    case Panics
    then show ?thesis using st by simp
  next
    case (Returns x)
    then have "x = None"
      using st toolCallStep_no_error [of lib s tc t] by (cases x) auto
    then show ?thesis using st Returns Cons.IH [of t'] by simp
  qed
qed

lemma toolCallStep_returns:
  assumes nopanic: "\<And>tool w. map_of (Runtime.Tools (runtime s))
                        (FunctionCall.Name (ToolCallInfo.Function tc)) = Some tool
                      \<Longrightarrow> fst (Execute tool (FunctionCall.Arguments (ToolCallInfo.Function tc)) w)
                          \<noteq> Panics"
  shows "fst (toolCallStep lib s tc t) = Returns None"
proof -
  let ?call = "\<lparr> ToolCall.ID = ToolCallInfo.ID tc,
                  ToolCall.Name = FunctionCall.Name (ToolCallInfo.Function tc),
                  ToolCall.Arguments = FunctionCall.Arguments (ToolCallInfo.Function tc) \<rparr>"
  have np: "\<And>w. fst (executeToolCall lib s ?call w) \<noteq> Panics"
    using nopanic by (simp only: executeToolCall_panics_iff) auto
  have ne: "\<And>w res err w'. executeToolCall lib s ?call w = (Returns (res, err), w') \<Longrightarrow> err = None"
    by (rule executeToolCall_no_error [THEN conjunct1])
  let ?t2 = "callOnMessage s (text_message MessageTypeToolCall
                    (''Calling tool: '' @ FunctionCall.Name (ToolCallInfo.Function tc) @ ''(''
                     @ FunctionCall.Arguments (ToolCallInfo.Function tc) @ '')'')
                    (Now lib (world (callOnToolCall s ?call t))))
               (AddMessage (text_message MessageTypeToolCall
                    (''Calling tool: '' @ FunctionCall.Name (ToolCallInfo.Function tc) @ ''(''
                     @ FunctionCall.Arguments (ToolCallInfo.Function tc) @ '')'')
                    (Now lib (world (callOnToolCall s ?call t))))
                  (callOnToolCall s ?call t))"
  obtain r w' where ex: "executeToolCall lib s ?call (world ?t2) = (r, w')"
    by (cases "executeToolCall lib s ?call (world ?t2)") auto
  obtain res where r: "r = Returns (res, None)"
    using np [of "world ?t2"] ne [of "world ?t2"] ex by (cases r) auto
  show ?thesis
    using ex r by (simp add: toolCallStep_def Let_def)
qed

lemma toolCallsLoop_returns:
  assumes nopanic: "\<And>tc tool w. tc \<in> set tcs \<Longrightarrow>
                      map_of (Runtime.Tools (runtime s))
                        (FunctionCall.Name (ToolCallInfo.Function tc)) = Some tool
                      \<Longrightarrow> fst (Execute tool (FunctionCall.Arguments (ToolCallInfo.Function tc)) w)
                          \<noteq> Panics"
  shows "fst (toolCallsLoop lib s tcs t) = Returns None"
  using nopanic
proof (induction tcs arbitrary: t)
  case Nil
  show ?case by simp
next
  case (Cons tc tcs)
  have "fst (toolCallStep lib s tc t) = Returns None"
    by (rule toolCallStep_returns) (rule Cons.prems, simp_all)
  then obtain t' where st: "toolCallStep lib s tc t = (Returns None, t')"
    by (cases "toolCallStep lib s tc t") auto
  have "fst (toolCallsLoop lib s tcs t') = Returns None"
    by (rule Cons.IH) (rule Cons.prems, simp_all)
  then show ?case using st by simp
qed

subsection \<open>What the loop leaves alone\<close>

text \<open>
  A part of the world that neither the registered tools nor the handlers change,
  read off by an observer \<open>obs\<close>, is the same after the loop over the tool calls of a
  response as before it, whether the loop returns or panics.
\<close>

lemma executeToolCall_frame:
  fixes obs :: "'w \<Rightarrow> 'a"
  assumes tools: "\<And>name tool args w. map_of (Runtime.Tools (runtime s)) name = Some tool
                    \<Longrightarrow> obs (snd (Execute tool args w)) = obs w"
  shows "obs (snd (executeToolCall lib s call w)) = obs w"
proof (cases "map_of (Runtime.Tools (runtime s)) (ToolCall.Name call)")
  case None
  then show ?thesis by (simp add: executeToolCall_not_found)
next
  case (Some tool)
  obtain r w' where ex: "Execute tool (ToolCall.Arguments call) w = (r, w')"
    by (cases "Execute tool (ToolCall.Arguments call) w") auto
  have w': "obs w' = obs w"
    using tools [OF Some, of "ToolCall.Arguments call" w] ex by simp
  show ?thesis
    using Some ex w'
    by (cases r) (auto simp: executeToolCall_def ToolSet_Get_def split: sum.splits)
qed

lemma callOnMessage_frame:
  fixes obs :: "'w \<Rightarrow> 'a"
  assumes "\<And>h m w. OnMessage s = Some h \<Longrightarrow> obs (h m w) = obs w"
  shows "obs (world (callOnMessage s msg t)) = obs (world t)"
  using assms by (simp add: callOnMessage_def split: option.split)

lemma callOnToolCall_frame:
  fixes obs :: "'w \<Rightarrow> 'a"
  assumes "\<And>h c w. OnToolCall s = Some h \<Longrightarrow> obs (h c w) = obs w"
  shows "obs (world (callOnToolCall s c t)) = obs (world t)"
  using assms by (simp add: callOnToolCall_def split: option.split)

lemma callOnToolResult_frame:
  fixes obs :: "'w \<Rightarrow> 'a"
  assumes "\<And>h r w. OnToolResult s = Some h \<Longrightarrow> obs (h r w) = obs w"
  shows "obs (world (callOnToolResult s r t)) = obs (world t)"
  using assms by (simp add: callOnToolResult_def split: option.split)

lemma toolCallStep_frame:
  fixes obs :: "'w \<Rightarrow> 'a"
  assumes tools: "\<And>name tool args w. map_of (Runtime.Tools (runtime s)) name = Some tool
                    \<Longrightarrow> obs (snd (Execute tool args w)) = obs w"
    and onMessage: "\<And>h m w. OnMessage s = Some h \<Longrightarrow> obs (h m w) = obs w"
    and onToolCall: "\<And>h c w. OnToolCall s = Some h \<Longrightarrow> obs (h c w) = obs w"
    and onToolResult: "\<And>h r w. OnToolResult s = Some h \<Longrightarrow> obs (h r w) = obs w"
  shows "obs (world (snd (toolCallStep lib s tc t))) = obs (world t)"
proof -
  let ?call = "\<lparr> ToolCall.ID = ToolCallInfo.ID tc,
                  ToolCall.Name = FunctionCall.Name (ToolCallInfo.Function tc),
                  ToolCall.Arguments = FunctionCall.Arguments (ToolCallInfo.Function tc) \<rparr>"
  let ?t1 = "callOnToolCall s ?call t"
  let ?tcMsg = "text_message MessageTypeToolCall
                    (''Calling tool: '' @ FunctionCall.Name (ToolCallInfo.Function tc) @ ''(''
                     @ FunctionCall.Arguments (ToolCallInfo.Function tc) @ '')'')
                    (Now lib (world ?t1))"
  let ?t2 = "callOnMessage s ?tcMsg (AddMessage ?tcMsg ?t1)"
  have t1: "obs (world ?t1) = obs (world t)"
    using onToolCall by (rule callOnToolCall_frame)
  have "obs (world ?t2) = obs (world (AddMessage ?tcMsg ?t1))"
    using onMessage by (rule callOnMessage_frame)
  then have t2: "obs (world ?t2) = obs (world t)"
    using t1 by (simp add: AddMessage_def)
  obtain r w' where ex: "executeToolCall lib s ?call (world ?t2) = (r, w')"
    by (cases "executeToolCall lib s ?call (world ?t2)") auto
  have "obs (snd (executeToolCall lib s ?call (world ?t2))) = obs (world ?t2)"
    by (rule executeToolCall_frame [where obs = obs]) (auto intro: tools)
  then have w': "obs w' = obs (world t)"
    using ex t2 by simp
  show ?thesis
  proof (cases r)
    case Panics
    then show ?thesis
      using ex w' by (simp add: toolCallStep_def Let_def)
  next
    case (Returns p)
    obtain res err where p: "p = (res, err)" by (cases p) auto
    have err: "err = None"
      using ex Returns p executeToolCall_no_error [of lib s ?call "world ?t2" res err w'] by simp
    let ?t3 = "?t2\<lparr> world := w' \<rparr>"
    let ?t4 = "callOnToolResult s res ?t3"
    let ?text = "(if ToolResult.Success res then Result res else ''Error: '' @ ToolResult.Error res)"
    let ?m = "\<lparr> Role = ''tool'', Message.Content = ?text, ToolCalls = [],
                ToolCallID = ToolCallInfo.ID tc \<rparr>"
    let ?t5 = "?t4\<lparr> llmHistory := llmHistory ?t4 @ [?m], messages := messages ?t4 @ [?m] \<rparr>"
    let ?trMsg = "text_message MessageTypeToolResult ?text (Now lib (world ?t5))"
    have t4: "obs (world ?t4) = obs (world ?t3)"
      using onToolResult by (rule callOnToolResult_frame)
    have "obs (world (callOnMessage s ?trMsg (AddMessage ?trMsg ?t5)))
          = obs (world (AddMessage ?trMsg ?t5))"
      using onMessage by (rule callOnMessage_frame)
    then have t6: "obs (world (callOnMessage s ?trMsg (AddMessage ?trMsg ?t5))) = obs (world t)"
      using t4 w' by (simp add: AddMessage_def)
    have "toolCallStep lib s tc t = (Returns None, callOnMessage s ?trMsg (AddMessage ?trMsg ?t5))"
      using ex Returns p err by (simp add: toolCallStep_def Let_def)
    then show ?thesis using t6 by simp
  qed
qed

lemma toolCallsLoop_frame:
  fixes obs :: "'w \<Rightarrow> 'a"
  assumes tools: "\<And>name tool args w. map_of (Runtime.Tools (runtime s)) name = Some tool
                    \<Longrightarrow> obs (snd (Execute tool args w)) = obs w"
    and onMessage: "\<And>h m w. OnMessage s = Some h \<Longrightarrow> obs (h m w) = obs w"
    and onToolCall: "\<And>h c w. OnToolCall s = Some h \<Longrightarrow> obs (h c w) = obs w"
    and onToolResult: "\<And>h r w. OnToolResult s = Some h \<Longrightarrow> obs (h r w) = obs w"
  shows "obs (world (snd (toolCallsLoop lib s tcs t))) = obs (world t)"
proof (induction tcs arbitrary: t)
  case Nil
  show ?case by simp
next
  case (Cons tc tcs)
  obtain r t' where st: "toolCallStep lib s tc t = (r, t')"
    by (cases "toolCallStep lib s tc t") auto
  have "obs (world (snd (toolCallStep lib s tc t))) = obs (world t)"
    by (rule toolCallStep_frame [where obs = obs])
      (auto intro: tools onMessage onToolCall onToolResult)
  then have t': "obs (world t') = obs (world t)"
    using st by simp
  show ?case
  proof (cases r)
    case Panics
    then show ?thesis using st t' by simp
  next
    case (Returns x)
    then show ?thesis
      using st t' Cons.IH [of t'] by (cases x) auto
  qed
qed

subsection \<open>The agent loop, one case at a time\<close>

lemma agentLoop_stop:
  "\<not> step < MaxSteps (runtime s) \<Longrightarrow>
   agentLoop lib s client toolDefs step t
   = (Returns (Some (Errorf (''agent loop exceeded maximum steps (''
                             @ showInt (MaxSteps (runtime s)) @ '')''))), t)"
  by (subst agentLoop.simps) simp

lemma agentLoop_chat_error:
  "step < MaxSteps (runtime s) \<Longrightarrow>
   ChatWithTools client (messages t) toolDefs (world t) = (Inl err, w') \<Longrightarrow>
   agentLoop lib s client toolDefs step t
   = (Returns (Some (ErrorfW ''LLM request failed: '' err)), t\<lparr> world := w' \<rparr>)"
  by (subst agentLoop.simps) simp

lemma agentLoop_no_choices:
  "step < MaxSteps (runtime s) \<Longrightarrow>
   ChatWithTools client (messages t) toolDefs (world t) = (Inr resp, w') \<Longrightarrow>
   Choices resp = [] \<Longrightarrow>
   agentLoop lib s client toolDefs step t
   = (Returns (Some (Errorf ''LLM returned no choices'')), t\<lparr> world := w' \<rparr>)"
  by (subst agentLoop.simps) simp

lemma agentLoop_final:
  "step < MaxSteps (runtime s) \<Longrightarrow>
   ChatWithTools client (messages t) toolDefs (world t) = (Inr resp, w') \<Longrightarrow>
   Choices resp = choice # others \<Longrightarrow>
   ToolCalls (Choice.Message choice) = [] \<Longrightarrow>
   agentLoop lib s client toolDefs step t
   = (Returns None, finalResponse lib s (Choice.Message choice)
        (t\<lparr> world := w', llmHistory := llmHistory t @ [Choice.Message choice],
            messages := messages t @ [Choice.Message choice] \<rparr>))"
  by (subst agentLoop.simps) (simp add: Let_def)

lemma agentLoop_tools:
  "step < MaxSteps (runtime s) \<Longrightarrow>
   ChatWithTools client (messages t) toolDefs (world t) = (Inr resp, w') \<Longrightarrow>
   Choices resp = choice # others \<Longrightarrow>
   ToolCalls (Choice.Message choice) \<noteq> [] \<Longrightarrow>
   toolCallsLoop lib s (ToolCalls (Choice.Message choice))
     (t\<lparr> world := w', llmHistory := llmHistory t @ [Choice.Message choice],
         messages := messages t @ [Choice.Message choice] \<rparr>) = (Returns None, t3) \<Longrightarrow>
   agentLoop lib s client toolDefs step t = agentLoop lib s client toolDefs (step + 1) t3"
  by (subst agentLoop.simps) (simp add: Let_def)

lemma agentLoop_tools_panic:
  "step < MaxSteps (runtime s) \<Longrightarrow>
   ChatWithTools client (messages t) toolDefs (world t) = (Inr resp, w') \<Longrightarrow>
   Choices resp = choice # others \<Longrightarrow>
   ToolCalls (Choice.Message choice) \<noteq> [] \<Longrightarrow>
   toolCallsLoop lib s (ToolCalls (Choice.Message choice))
     (t\<lparr> world := w', llmHistory := llmHistory t @ [Choice.Message choice],
         messages := messages t @ [Choice.Message choice] \<rparr>) = (Panics, t3) \<Longrightarrow>
   agentLoop lib s client toolDefs step t = (Panics, t3)"
  by (subst agentLoop.simps) (simp add: Let_def)

lemma finalResponse_frame:
  fixes obs :: "'w \<Rightarrow> 'a"
  assumes "\<And>h m w. OnMessage s = Some h \<Longrightarrow> obs (h m w) = obs w"
  shows "obs (world (finalResponse lib s m t)) = obs (world t)"
  using assms
  by (simp add: finalResponse_def Let_def callOnMessage_def AddMessage_def split: option.split)

text \<open>
  The turn never returns the error \<open>tool execution error\<close>: a tool that is missing
  or returns an error is reported to the LLM and the loop goes on.
\<close>

lemma agentLoop_no_tool_error:
  "fst (agentLoop lib s client toolDefs step t)
   \<noteq> Returns (Some (ErrorfW ''tool execution error: '' e))"
proof (induction "nat (MaxSteps (runtime s) - step)" arbitrary: step t)
  case 0
  then have "\<not> step < MaxSteps (runtime s)" by simp
  then show ?case by (simp add: agentLoop_stop)
next
  case (Suc k)
  then have lt: "step < MaxSteps (runtime s)" and k: "k = nat (MaxSteps (runtime s) - (step + 1))"
    by auto
  obtain r w' where c: "ChatWithTools client (messages t) toolDefs (world t) = (r, w')"
    by (cases "ChatWithTools client (messages t) toolDefs (world t)") auto
  show ?case
  proof (cases r)
    case (Inl err)
    then show ?thesis using lt c by (simp add: agentLoop_chat_error)
  next
    case (Inr resp)
    show ?thesis
    proof (cases "Choices resp")
      case Nil
      then show ?thesis using lt c Inr by (simp add: agentLoop_no_choices)
    next
      case (Cons choice others)
      let ?t2 = "t\<lparr> world := w', llmHistory := llmHistory t @ [Choice.Message choice],
                    messages := messages t @ [Choice.Message choice] \<rparr>"
      show ?thesis
      proof (cases "ToolCalls (Choice.Message choice) = []")
        case True
        then show ?thesis
          using lt c Inr Cons by (simp add: agentLoop_final)
      next
        case False
        obtain r3 t3 where l: "toolCallsLoop lib s (ToolCalls (Choice.Message choice)) ?t2 = (r3, t3)"
          by (cases "toolCallsLoop lib s (ToolCalls (Choice.Message choice)) ?t2") auto
        show ?thesis
        proof (cases r3)
          case Panics
          then have "agentLoop lib s client toolDefs step t = (Panics, t3)"
            using lt c [unfolded Inr] Cons False l by (intro agentLoop_tools_panic) auto
          then show ?thesis by simp
        next
          case (Returns x)
          then have "x = None"
            using l toolCallsLoop_no_error [of lib s "ToolCalls (Choice.Message choice)" ?t2]
            by (cases x) auto
          then have "agentLoop lib s client toolDefs step t
                     = agentLoop lib s client toolDefs (step + 1) t3"
            using lt c [unfolded Inr] Cons False l Returns by (intro agentLoop_tools) auto
          then show ?thesis
            using Suc.hyps(1) [OF k, of t3] by simp
        qed
      qed
    qed
  qed
qed

subsection \<open>The bound on the steps of a turn\<close>

text \<open>
  The calls of the LLM client are counted in the world: \<open>chats\<close> reads the count, a
  call of the client adds one to it, and the registered tools and the handlers leave
  it alone. Then the loop started at \<open>step\<close> makes at most \<open>MaxSteps - step\<close> calls of
  the client, whatever the client answers and whether or not a tool panics.
\<close>

lemma agentLoop_chats_le:
  fixes chats :: "'w \<Rightarrow> nat"
  assumes client: "\<And>ms w. chats (snd (ChatWithTools client ms toolDefs w)) = chats w + 1"
    and tools: "\<And>name tool args w. map_of (Runtime.Tools (runtime s)) name = Some tool
                    \<Longrightarrow> chats (snd (Execute tool args w)) = chats w"
    and onMessage: "\<And>h m w. OnMessage s = Some h \<Longrightarrow> chats (h m w) = chats w"
    and onToolCall: "\<And>h c w. OnToolCall s = Some h \<Longrightarrow> chats (h c w) = chats w"
    and onToolResult: "\<And>h r w. OnToolResult s = Some h \<Longrightarrow> chats (h r w) = chats w"
  shows "chats (world (snd (agentLoop lib s client toolDefs step t)))
         \<le> chats (world t) + nat (MaxSteps (runtime s) - step)"
proof (induction "nat (MaxSteps (runtime s) - step)" arbitrary: step t)
  case 0
  then have "\<not> step < MaxSteps (runtime s)" by simp
  then show ?case by (simp add: agentLoop_stop)
next
  case (Suc k)
  then have lt: "step < MaxSteps (runtime s)" and k: "k = nat (MaxSteps (runtime s) - (step + 1))"
    by auto
  have n: "nat (MaxSteps (runtime s) - step) = Suc (nat (MaxSteps (runtime s) - (step + 1)))"
    using lt by simp
  obtain r w' where c: "ChatWithTools client (messages t) toolDefs (world t) = (r, w')"
    by (cases "ChatWithTools client (messages t) toolDefs (world t)") auto
  have w': "chats w' = chats (world t) + 1"
    using client [of "messages t" "world t"] c by simp
  show ?case
  proof (cases r)
    case (Inl err)
    then show ?thesis using lt c w' by (simp add: agentLoop_chat_error)
  next
    case (Inr resp)
    show ?thesis
    proof (cases "Choices resp")
      case Nil
      then show ?thesis using lt c Inr w' by (simp add: agentLoop_no_choices)
    next
      case (Cons choice others)
      let ?t2 = "t\<lparr> world := w', llmHistory := llmHistory t @ [Choice.Message choice],
                    messages := messages t @ [Choice.Message choice] \<rparr>"
      show ?thesis
      proof (cases "ToolCalls (Choice.Message choice) = []")
        case True
        have "chats (world (finalResponse lib s (Choice.Message choice) ?t2)) = chats (world ?t2)"
          by (rule finalResponse_frame [where obs = chats]) (auto intro: onMessage)
        then show ?thesis
          using lt c Inr Cons True w' by (simp add: agentLoop_final)
      next
        case False
        obtain r3 t3 where l: "toolCallsLoop lib s (ToolCalls (Choice.Message choice)) ?t2 = (r3, t3)"
          by (cases "toolCallsLoop lib s (ToolCalls (Choice.Message choice)) ?t2") auto
        have "chats (world (snd (toolCallsLoop lib s (ToolCalls (Choice.Message choice)) ?t2)))
              = chats (world ?t2)"
          by (rule toolCallsLoop_frame [where obs = chats])
            (auto intro: tools onMessage onToolCall onToolResult)
        then have t3: "chats (world t3) = chats (world t) + 1"
          using l w' by simp
        show ?thesis
        proof (cases r3)
          case Panics
          then have "agentLoop lib s client toolDefs step t = (Panics, t3)"
            using lt c [unfolded Inr] Cons False l by (intro agentLoop_tools_panic) auto
          then show ?thesis using t3 n by simp
        next
          case (Returns x)
          then have "x = None"
            using l toolCallsLoop_no_error [of lib s "ToolCalls (Choice.Message choice)" ?t2]
            by (cases x) auto
          then have "agentLoop lib s client toolDefs step t
                     = agentLoop lib s client toolDefs (step + 1) t3"
            using lt c [unfolded Inr] Cons False l Returns by (intro agentLoop_tools) auto
          moreover have "chats (world (snd (agentLoop lib s client toolDefs (step + 1) t3)))
                \<le> chats (world t3) + nat (MaxSteps (runtime s) - (step + 1))"
            by (rule Suc.hyps(1) [OF k])
          ultimately show ?thesis using t3 n by simp
        qed
      qed
    qed
  qed
qed

text \<open>
  If moreover every response of the client carries a choice whose message has tool
  calls and none of these calls makes its tool panic, the loop makes exactly \<open>MaxSteps - step\<close>
  calls of the client and then returns the error
  \<open>agent loop exceeded maximum steps (MaxSteps)\<close>.
\<close>

lemma agentLoop_always_tools:
  fixes chats :: "'w \<Rightarrow> nat"
  assumes always: "\<And>ms w. \<exists>resp choice others.
             fst (ChatWithTools client ms toolDefs w) = Inr resp
             \<and> Choices resp = choice # others \<and> ToolCalls (Choice.Message choice) \<noteq> []"
    and client: "\<And>ms w. chats (snd (ChatWithTools client ms toolDefs w)) = chats w + 1"
    and nopanic: "\<And>ms w resp choice others tc tool w2.
             fst (ChatWithTools client ms toolDefs w) = Inr resp \<Longrightarrow>
             Choices resp = choice # others \<Longrightarrow>
             tc \<in> set (ToolCalls (Choice.Message choice)) \<Longrightarrow>
             map_of (Runtime.Tools (runtime s))
               (FunctionCall.Name (ToolCallInfo.Function tc)) = Some tool \<Longrightarrow>
             fst (Execute tool (FunctionCall.Arguments (ToolCallInfo.Function tc)) w2) \<noteq> Panics"
    and tools: "\<And>name tool args w. map_of (Runtime.Tools (runtime s)) name = Some tool
                    \<Longrightarrow> chats (snd (Execute tool args w)) = chats w"
    and onMessage: "\<And>h m w. OnMessage s = Some h \<Longrightarrow> chats (h m w) = chats w"
    and onToolCall: "\<And>h c w. OnToolCall s = Some h \<Longrightarrow> chats (h c w) = chats w"
    and onToolResult: "\<And>h r w. OnToolResult s = Some h \<Longrightarrow> chats (h r w) = chats w"
  shows "fst (agentLoop lib s client toolDefs step t)
           = Returns (Some (Errorf (''agent loop exceeded maximum steps (''
                                    @ showInt (MaxSteps (runtime s)) @ '')'')))
         \<and> chats (world (snd (agentLoop lib s client toolDefs step t)))
           = chats (world t) + nat (MaxSteps (runtime s) - step)"
proof (induction "nat (MaxSteps (runtime s) - step)" arbitrary: step t)
  case 0
  then have "\<not> step < MaxSteps (runtime s)" by simp
  then show ?case by (simp add: agentLoop_stop)
next
  case (Suc k)
  then have lt: "step < MaxSteps (runtime s)" and k: "k = nat (MaxSteps (runtime s) - (step + 1))"
    by auto
  have n: "nat (MaxSteps (runtime s) - step) = Suc (nat (MaxSteps (runtime s) - (step + 1)))"
    using lt by simp
  obtain resp choice others where
    c1: "fst (ChatWithTools client (messages t) toolDefs (world t)) = Inr resp"
    and ch: "Choices resp = choice # others" and tc: "ToolCalls (Choice.Message choice) \<noteq> []"
    using always [of "messages t" "world t"] by blast
  obtain w' where c: "ChatWithTools client (messages t) toolDefs (world t) = (Inr resp, w')"
    using c1 by (cases "ChatWithTools client (messages t) toolDefs (world t)") auto
  have w': "chats w' = chats (world t) + 1"
    using client [of "messages t" "world t"] c by simp
  let ?t2 = "t\<lparr> world := w', llmHistory := llmHistory t @ [Choice.Message choice],
                messages := messages t @ [Choice.Message choice] \<rparr>"
  have "fst (toolCallsLoop lib s (ToolCalls (Choice.Message choice)) ?t2) = Returns None"
    by (rule toolCallsLoop_returns) (rule nopanic [OF c1 ch])
  then obtain t3 where l: "toolCallsLoop lib s (ToolCalls (Choice.Message choice)) ?t2
                           = (Returns None, t3)"
    by (cases "toolCallsLoop lib s (ToolCalls (Choice.Message choice)) ?t2") auto
  have "chats (world (snd (toolCallsLoop lib s (ToolCalls (Choice.Message choice)) ?t2)))
        = chats (world ?t2)"
    by (rule toolCallsLoop_frame [where obs = chats])
      (auto intro: tools onMessage onToolCall onToolResult)
  then have t3: "chats (world t3) = chats (world t) + 1"
    using l w' by simp
  have step: "agentLoop lib s client toolDefs step t = agentLoop lib s client toolDefs (step + 1) t3"
    using lt c ch tc l by (rule agentLoop_tools)
  show ?case
    using Suc.hyps(1) [OF k, of t3] t3 n by (simp only: step) simp
qed

lemma processWithLLM_max_steps:
  fixes chats :: "'w \<Rightarrow> nat"
  assumes configured: "LLMClient (runtime s) = Some client"
    and always: "\<And>ms w. \<exists>resp choice others.
             fst (ChatWithTools client ms (buildToolDefs s) w) = Inr resp
             \<and> Choices resp = choice # others \<and> ToolCalls (Choice.Message choice) \<noteq> []"
    and client: "\<And>ms w. chats (snd (ChatWithTools client ms (buildToolDefs s) w)) = chats w + 1"
    and nopanic: "\<And>ms w resp choice others tc tool w2.
             fst (ChatWithTools client ms (buildToolDefs s) w) = Inr resp \<Longrightarrow>
             Choices resp = choice # others \<Longrightarrow>
             tc \<in> set (ToolCalls (Choice.Message choice)) \<Longrightarrow>
             map_of (Runtime.Tools (runtime s))
               (FunctionCall.Name (ToolCallInfo.Function tc)) = Some tool \<Longrightarrow>
             fst (Execute tool (FunctionCall.Arguments (ToolCallInfo.Function tc)) w2) \<noteq> Panics"
    and tools: "\<And>name tool args w. map_of (Runtime.Tools (runtime s)) name = Some tool
                    \<Longrightarrow> chats (snd (Execute tool args w)) = chats w"
    and onMessage: "\<And>h m w. OnMessage s = Some h \<Longrightarrow> chats (h m w) = chats w"
    and onToolCall: "\<And>h c w. OnToolCall s = Some h \<Longrightarrow> chats (h c w) = chats w"
    and onToolResult: "\<And>h r w. OnToolResult s = Some h \<Longrightarrow> chats (h r w) = chats w"
  shows "fst (processWithLLM lib s userMsg t)
           = Returns (Some (Errorf (''agent loop exceeded maximum steps (''
                                    @ showInt (MaxSteps (runtime s)) @ '')'')))
         \<and> chats (world (snd (processWithLLM lib s userMsg t)))
           = chats (world t) + nat (MaxSteps (runtime s))"
proof -
  let ?h = "llmHistory t @ [\<lparr> Role = ''user'', Message.Content = extractText userMsg,
                              ToolCalls = [], ToolCallID = [] \<rparr>]"
  let ?t1 = "t\<lparr> llmHistory := ?h, messages := buildLLMMessages s ?h \<rparr>"
  have p: "processWithLLM lib s userMsg t = agentLoop lib s client (buildToolDefs s) 0 ?t1"
    using configured by (simp add: processWithLLM_def Let_def)
  have "fst (agentLoop lib s client (buildToolDefs s) 0 ?t1)
           = Returns (Some (Errorf (''agent loop exceeded maximum steps (''
                                    @ showInt (MaxSteps (runtime s)) @ '')'')))
         \<and> chats (world (snd (agentLoop lib s client (buildToolDefs s) 0 ?t1)))
           = chats (world ?t1) + nat (MaxSteps (runtime s) - 0)"
    by (rule agentLoop_always_tools [where chats = chats])
      (fact always client nopanic tools onMessage onToolCall onToolResult)+
  then show ?thesis
    by (simp only: p) simp
qed

lemma processWithLLM_chats_le:
  fixes chats :: "'w \<Rightarrow> nat"
  assumes client: "\<And>c ms w. LLMClient (runtime s) = Some c
                    \<Longrightarrow> chats (snd (ChatWithTools c ms (buildToolDefs s) w)) = chats w + 1"
    and tools: "\<And>name tool args w. map_of (Runtime.Tools (runtime s)) name = Some tool
                    \<Longrightarrow> chats (snd (Execute tool args w)) = chats w"
    and onMessage: "\<And>h m w. OnMessage s = Some h \<Longrightarrow> chats (h m w) = chats w"
    and onToolCall: "\<And>h c w. OnToolCall s = Some h \<Longrightarrow> chats (h c w) = chats w"
    and onToolResult: "\<And>h r w. OnToolResult s = Some h \<Longrightarrow> chats (h r w) = chats w"
  shows "chats (world (snd (processWithLLM lib s userMsg t)))
         \<le> chats (world t) + nat (MaxSteps (runtime s))"
proof (cases "LLMClient (runtime s)")
  case None
  then show ?thesis
    using onMessage
    by (simp add: processWithLLM_def Let_def callOnMessage_def AddMessage_def split: option.split)
next
  case (Some c)
  let ?h = "llmHistory t @ [\<lparr> Role = ''user'', Message.Content = extractText userMsg,
                              ToolCalls = [], ToolCallID = [] \<rparr>]"
  let ?t1 = "t\<lparr> llmHistory := ?h, messages := buildLLMMessages s ?h \<rparr>"
  have p: "processWithLLM lib s userMsg t = agentLoop lib s c (buildToolDefs s) 0 ?t1"
    using Some by (simp add: processWithLLM_def Let_def)
  have "chats (world (snd (agentLoop lib s c (buildToolDefs s) 0 ?t1)))
         \<le> chats (world ?t1) + nat (MaxSteps (runtime s) - 0)"
    by (rule agentLoop_chats_le [where chats = chats])
      (fact client [OF Some] tools onMessage onToolCall onToolResult)+
  then show ?thesis
    by (simp only: p) simp
qed

section \<open>The turn loop at concrete inputs\<close>

lemma showInt_3: "showInt 3 = ''3''"
  by code_simp

text \<open>The tools of the scenario leave the count of the calls of the LLM client alone.\<close>

lemma test_tools_keep_chatCalls:
  assumes "map_of (Runtime.Tools (runtime (test_soul client n))) name = Some tool"
  shows "chatCalls (snd (Execute tool args w)) = chatCalls w"
proof -
  have shellCase: "chatCalls (snd (Execute
      (ShellTool_Tool ''{}'' ShellValue (NewShellTool ''/tmp'' 0) test_shell_env) args w)) = chatCalls w"
    by (simp add: ShellTool_Tool_def ShellTool_Execute_def test_shell_env_def chatCalls_def Let_def
        split: sum.split)
  have fileCase: "chatCalls (snd (Execute
      (FileTool_Tool ''{}'' FileValue (NewFileTool ''/tmp'') test_file_env) args w)) = chatCalls w"
    by (simp add: FileTool_Tool_def FileTool_Execute_def test_file_env_def chatCalls_def Let_def
        readFile_def writeFile_def listDir_def deleteFile_def fileExists_def
        split: sum.split)
  show ?thesis
    using assms shellCase fileCase by (auto simp: test_soul_def split: if_splits)
qed


text \<open>
  C2 (a tool that panics). The LLM asks for the file tool with the arguments
  \<open>{"operation":"read","path":"notes.txt","offset":-1,"limit":1}\<close>, and the file
  exists. \<open>readFile\<close> evaluates \<open>lines[-1:0]\<close> and panics, and nothing recovers:
  \<open>executeToolCall\<close> does not return a result, and the turn ends in the panic after
  the file has been read, with no tool result handed to a handler or to the LLM.
\<close>

theorem executeToolCall_file_read_panics:
  "executeToolCall test_lib (test_soul (scripted_client ''file'' read_args) 10)
       \<lparr> ToolCall.ID = ''call_1'', ToolCall.Name = ''file'', ToolCall.Arguments = read_args \<rparr> []
     = (Panics, [FileRead ''/tmp/notes.txt''])
   \<and> fst (processWithLLM test_lib (test_soul (scripted_client ''file'' read_args) 10)
            (user_input ''show the last line of notes.txt'') new_turn) = Panics
   \<and> world (snd (processWithLLM test_lib (test_soul (scripted_client ''file'' read_args) 10)
            (user_input ''show the last line of notes.txt'') new_turn))
     = [LLMCalled 1, ToolCallSeen ''file'' read_args,
        MessageSeen MessageTypeToolCall (''Calling tool: file('' @ read_args @ '')''),
        FileRead ''/tmp/notes.txt'']"
  by code_simp

text \<open>
  C8 (a tool that panics before the bound is reached). With \<open>MaxSteps = 3\<close> and an
  LLM whose every response asks for the shell tool, as in
  \<open>TestSoul_ProcessWithLLM_MaxSteps\<close>, the turn calls the LLM three times and returns
  the error \<open>agent loop exceeded maximum steps (3)\<close>. With an LLM whose every response
  asks for the file tool with the arguments above, the turn calls the LLM once and
  ends in the panic of the tool: it neither makes three calls nor returns the error.
\<close>

theorem processWithLLM_panics_before_max_steps:
  "fst (processWithLLM test_lib (test_soul (looping_client ''shell'' shell_args) 3)
          (user_input ''loop'') new_turn)
     = Returns (Some (Errorf ''agent loop exceeded maximum steps (3)''))
   \<and> chatCalls (world (snd (processWithLLM test_lib (test_soul (looping_client ''shell'' shell_args) 3)
          (user_input ''loop'') new_turn))) = 3
   \<and> fst (processWithLLM test_lib (test_soul (looping_client ''file'' read_args) 3)
          (user_input ''loop'') new_turn) = Panics
   \<and> chatCalls (world (snd (processWithLLM test_lib (test_soul (looping_client ''file'' read_args) 3)
          (user_input ''loop'') new_turn))) = 1"
proof -
  let ?client = "looping_client ''shell'' shell_args"
  let ?s = "test_soul ?client 3"
  have shellCase: "fst (processWithLLM test_lib ?s (user_input ''loop'') new_turn)
           = Returns (Some (Errorf (''agent loop exceeded maximum steps (''
                                    @ showInt (MaxSteps (runtime ?s)) @ '')'')))
         \<and> chatCalls (world (snd (processWithLLM test_lib ?s (user_input ''loop'') new_turn)))
           = chatCalls (world new_turn) + nat (MaxSteps (runtime ?s))"
  proof (rule processWithLLM_max_steps [where chats = chatCalls and client = ?client])
    show "LLMClient (runtime ?s) = Some ?client"
      by (simp add: test_soul_def)
    show "\<exists>resp choice others.
            fst (ChatWithTools ?client ms (buildToolDefs ?s) w) = Inr resp
            \<and> Choices resp = choice # others \<and> ToolCalls (Choice.Message choice) \<noteq> []" for ms w
      by (simp add: looping_client_def toolCallResponse_def)
    show "chatCalls (snd (ChatWithTools ?client ms (buildToolDefs ?s) w)) = chatCalls w + 1" for ms w
      by (simp add: looping_client_def chatCalls_def)
    show "fst (Execute tool (FunctionCall.Arguments (ToolCallInfo.Function tc)) w2) \<noteq> Panics"
      if "fst (ChatWithTools ?client ms (buildToolDefs ?s) w) = Inr resp"
        "Choices resp = choice # others" "tc \<in> set (ToolCalls (Choice.Message choice))"
        "map_of (Runtime.Tools (runtime ?s)) (FunctionCall.Name (ToolCallInfo.Function tc)) = Some tool"
      for ms w resp choice others tc tool w2
    proof -
      have "FunctionCall.Name (ToolCallInfo.Function tc) = ''shell''"
        using that(1-3) by (auto simp: looping_client_def toolCallResponse_def)
      then have "tool = ShellTool_Tool ''{}'' ShellValue (NewShellTool ''/tmp'' 0) test_shell_env"
        using that(4) by (simp add: test_soul_def)
      then show ?thesis
        by (simp add: ShellTool_Tool_def split: prod.split sum.split)
    qed
    show "chatCalls (snd (Execute tool args w)) = chatCalls w"
      if "map_of (Runtime.Tools (runtime ?s)) name = Some tool" for name tool args w
      using that by (rule test_tools_keep_chatCalls)
    show "chatCalls (h m w) = chatCalls w" if "OnMessage ?s = Some h" for h m w
      using that by (auto simp: test_soul_def chatCalls_def)
    show "chatCalls (h c w) = chatCalls w" if "OnToolCall ?s = Some h" for h c w
      using that by (auto simp: test_soul_def chatCalls_def)
    show "chatCalls (h r w) = chatCalls w" if "OnToolResult ?s = Some h" for h r w
      using that by (auto simp: test_soul_def chatCalls_def)
  qed
  have fileCase: "fst (processWithLLM test_lib (test_soul (looping_client ''file'' read_args) 3)
                (user_input ''loop'') new_turn) = Panics
      \<and> chatCalls (world (snd (processWithLLM test_lib (test_soul (looping_client ''file'' read_args) 3)
                (user_input ''loop'') new_turn))) = 1"
    by code_simp
  have "MaxSteps (runtime ?s) = 3" "chatCalls (world new_turn) = 0"
    by (simp_all add: test_soul_def new_turn_def chatCalls_def)
  then show ?thesis
    using shellCase fileCase by (simp add: showInt_3)
qed

text \<open>
  C1 (no approval gate). The program started without \<open>--yolo\<close>: the approval manager
  of that mode approves no tool, so \<open>IsApproved\<close> is false for \<open>shell\<close>. The LLM asks
  for the shell tool once and then answers in text. The world after the turn lists
  everything that happened, in order: the tool call is announced, the command is run
  by the shell at once, and its result, a success, goes to the handlers and back to
  the LLM. No approval is requested and no decision is awaited, the loop has neither
  a manager to consult nor a handler to ask; the tool is executed.
\<close>

theorem processWithLLM_runs_unapproved_tool:
  "\<not> IsApproved (NewManager (YOLO (runtime (test_soul (scripted_client ''shell'' shell_args) 10))))
        ''shell''
   \<and> fst (processWithLLM test_lib (test_soul (scripted_client ''shell'' shell_args) 10)
            (user_input ''run echo hello'') new_turn) = Returns None
   \<and> world (snd (processWithLLM test_lib (test_soul (scripted_client ''shell'' shell_args) 10)
            (user_input ''run echo hello'') new_turn))
     = [LLMCalled 1, ToolCallSeen ''shell'' shell_args,
        MessageSeen MessageTypeToolCall (''Calling tool: shell('' @ shell_args @ '')''),
        ShellRan ''/tmp'' ''echo hello'' (60 * time_Second),
        ToolResultSeen True (''hello'' @ [newline]) [],
        MessageSeen MessageTypeToolResult (''hello'' @ [newline]),
        LLMCalled 3, MessageSeen MessageTypeAssistant ''done'']"
  by code_simp


end
